theory Spec2Isabelle
  imports Main "HOL-Library.Sublist"
begin

section \<open>JavaScript string primitives used by the resolver\<close>

text \<open>
  Specifiers, file names and alias targets are JavaScript strings; they are modelled as
  \<open>string\<close> (a list of characters).  The resolver uses four string operations of
  the language: indexing the first character, \<^verbatim>\<open>split('/')\<close>,
  \<^verbatim>\<open>join('/')\<close> and \<^verbatim>\<open>replace\<close>.
\<close>

text \<open>\<^verbatim>\<open>source[0] === '.'\<close>: false on the empty string, where the index is undefined.\<close>

definition startsWithDot :: "string \<Rightarrow> bool" where
  "startsWithDot s = (case s of [] \<Rightarrow> False | c # _ \<Rightarrow> c = CHR ''.'')"

text \<open>\<^verbatim>\<open>s.split('/')\<close>: the empty string splits into one empty segment.\<close>

primrec js_split :: "string \<Rightarrow> string list" where
  "js_split [] = [[]]"
| "js_split (c # cs) =
     (if c = CHR ''/'' then [] # js_split cs
      else (case js_split cs of [] \<Rightarrow> [[c]] | x # xs \<Rightarrow> (c # x) # xs))"

text \<open>\<^verbatim>\<open>segments.join('/')\<close>: the empty array joins to the empty string.\<close>

fun js_join :: "string list \<Rightarrow> string" where
  "js_join [] = []"
| "js_join [x] = x"
| "js_join (x # y # ys) = x @ CHR ''/'' # js_join (y # ys)"

text \<open>
  \<^verbatim>\<open>String.prototype.replace(pattern, replacement)\<close> with a string pattern
  replaces the first occurrence of the pattern.  The replacement is not inserted as it
  is: the language expands the dollar patterns in it (the abstract operation
  GetSubstitution).  With a string pattern there are no captures, so the patterns that
  expand are \<^verbatim>\<open>$$\<close> (a dollar sign), \<^verbatim>\<open>$&\<close> (the matched text),
  dollar-backquote (the text before the match) and dollar-quote (the text after the
  match); every other character, a dollar sign included, stands for itself.
\<close>

fun getSubstitution :: "string \<Rightarrow> string \<Rightarrow> string \<Rightarrow> string \<Rightarrow> string" where
  "getSubstitution matched preceding following [] = []"
| "getSubstitution matched preceding following [c] = [c]"
| "getSubstitution matched preceding following (c # d # r) =
     (if c = CHR ''$'' \<and> d = CHR ''$'' then CHR ''$'' # getSubstitution matched preceding following r
      else if c = CHR ''$'' \<and> d = CHR ''&'' then matched @ getSubstitution matched preceding following r
      else if c = CHR ''$'' \<and> d = CHR 0x60 then preceding @ getSubstitution matched preceding following r
      else if c = CHR ''$'' \<and> d = CHR 0x27 then following @ getSubstitution matched preceding following r
      else c # getSubstitution matched preceding following (d # r))"

fun js_replace_from :: "string \<Rightarrow> string \<Rightarrow> string \<Rightarrow> string \<Rightarrow> string" where
  "js_replace_from preceding s pat repl =
     (if prefix pat s
      then preceding @ getSubstitution pat preceding (drop (length pat) s) repl @ drop (length pat) s
      else (case s of [] \<Rightarrow> preceding | c # cs \<Rightarrow> js_replace_from (preceding @ [c]) cs pat repl))"

declare js_replace_from.simps [simp del]

text \<open>
  Whether a replacement holds one of the four patterns that expand, that is a dollar sign
  followed by a dollar sign, an ampersand, a backquote or a quote.
\<close>

fun hasDollarPattern :: "string \<Rightarrow> bool" where
  "hasDollarPattern (c # d # r) =
     ((c = CHR ''$'' \<and> (d = CHR ''$'' \<or> d = CHR ''&'' \<or> d = CHR 0x60 \<or> d = CHR 0x27))
      \<or> hasDollarPattern (d # r))"
| "hasDollarPattern r = False"

definition js_replace :: "string \<Rightarrow> string \<Rightarrow> string \<Rightarrow> string" where
  "js_replace s pat repl = js_replace_from [] s pat repl"

text \<open>\<^verbatim>\<open>aliasPath.replace(/^(npm:)/, '')\<close>: one leading marker is removed.\<close>

definition stripNpm :: "string \<Rightarrow> string" where
  "stripNpm p = (if prefix ''npm:'' p then drop 4 p else p)"

section \<open>The collaborators of the resolver\<close>

text \<open>
  \<^verbatim>\<open>mapModule\<close> calls code that is not part of \<^verbatim>\<open>src/index.js\<close>: the
  \<^verbatim>\<open>resolve\<close> package (the filesystem probe, which throws when nothing is found),
  Node's \<^verbatim>\<open>path\<close> module (which depends on the platform and on the working
  directory), and the helpers \<^verbatim>\<open>mapToRelative\<close>, \<^verbatim>\<open>toLocalPath\<close> and
  \<^verbatim>\<open>toPosixPath\<close> of the sibling modules.  They are parameters of the model, collected
  in an environment, so that every theorem about \<^verbatim>\<open>mapModule\<close> holds for any
  filesystem and any implementation of the helpers.  A thrown exception is the left
  summand of the probe's result.
\<close>

datatype exn = Exn string

record env =
  resolveSync :: "string \<Rightarrow> string \<Rightarrow> string list \<Rightarrow> exn + string"
  path_resolve :: "string \<Rightarrow> string"
  path_extname :: "string \<Rightarrow> string"
  path_basename :: "string \<Rightarrow> string \<Rightarrow> string"
  path_dirname :: "string \<Rightarrow> string"
  path_join :: "string \<Rightarrow> string \<Rightarrow> string"
  mapToRelative :: "string \<Rightarrow> string \<Rightarrow> string"
  toLocalPath :: "string \<Rightarrow> string"
  toPosixPath :: "string \<Rightarrow> string"

section \<open>The resolver: \<^verbatim>\<open>mapModule\<close>\<close>

text \<open>
  The plugin options.  Each option may be absent (\<open>None\<close>): the source reads them as
  \<^verbatim>\<open>pluginOpts.root || []\<close>, \<^verbatim>\<open>pluginOpts.alias || {}\<close> and
  \<^verbatim>\<open>pluginOpts.extensions || defaultBabelExtensions\<close>.  An array, also an empty
  one, is truthy, so a given list is always used.  The alias object is a finite map from
  keys to target strings.
\<close>

record pluginOpts =
  root :: "string list option"
  alias_opt :: "(string \<rightharpoonup> string) option"
  extensions :: "string list option"

text \<open>
  \<^verbatim>\<open>createAliasFileMap\<close> copies every own key of the alias option into a fresh
  object with \<^verbatim>\<open>Object.assign\<close>, so the table has the keys and values of the
  option.  One key is lost on the way: \<^verbatim>\<open>Object.assign\<close> sets properties, and
  setting \<^verbatim>\<open>__proto__\<close> to a string on a plain object does nothing, so a key of
  that name is not an own property of the table.
\<close>

definition createAliasFileMap :: "pluginOpts \<Rightarrow> (string \<rightharpoonup> string)" where
  "createAliasFileMap pluginOpts =
     (case alias_opt pluginOpts of None \<Rightarrow> Map.empty | Some a \<Rightarrow> a(''__proto__'' := None))"

definition replaceExt :: "env \<Rightarrow> string \<Rightarrow> string \<Rightarrow> string" where
  "replaceExt E p ext =
     (let filename = path_basename E p (path_extname E p) @ ext
      in path_join E (path_dirname E p) filename)"

definition defaultBabelExtensions :: "string list" where
  "defaultBabelExtensions = [''.js'', ''.jsx'', ''.es'', ''.es6'']"

definition probeExtensions :: "pluginOpts \<Rightarrow> string list" where
  "probeExtensions pluginOpts =
     (case extensions pluginOpts of None \<Rightarrow> defaultBabelExtensions | Some es \<Rightarrow> es)"

text \<open>
  The body of the \<^verbatim>\<open>try\<close> block after a successful probe: the rewrite computed from
  the resolved file.
\<close>

definition rootRewrite :: "env \<Rightarrow> string \<Rightarrow> string \<Rightarrow> string \<Rightarrow> string" where
  "rootRewrite E source file resolvedSourceFile =
     (let realSourceFileExtension = path_extname E resolvedSourceFile;
          sourceFileExtension = path_extname E source;
          ext = (if realSourceFileExtension = sourceFileExtension
                 then realSourceFileExtension else [])
      in toLocalPath E (toPosixPath E (replaceExt E (mapToRelative E file resolvedSourceFile) ext)))"

text \<open>
  \<^verbatim>\<open>const rootDirs = pluginOpts.root || []\<close>, and the probe of one root directory:
  \<^verbatim>\<open>resolve.sync(`./${source}`, { basedir: path.resolve(rootDirs[i]), extensions })\<close>.
\<close>

definition rootDirs :: "pluginOpts \<Rightarrow> string list" where
  "rootDirs pluginOpts = (case root pluginOpts of None \<Rightarrow> [] | Some rs \<Rightarrow> rs)"

definition probeRoot :: "env \<Rightarrow> pluginOpts \<Rightarrow> string \<Rightarrow> string \<Rightarrow> exn + string" where
  "probeRoot E pluginOpts source rootDir =
     resolveSync E (''./'' @ source) (path_resolve E rootDir) (probeExtensions pluginOpts)"

text \<open>
  The loop over the root directories.  The probe of a root either throws, and the empty
  \<^verbatim>\<open>catch\<close> lets the loop go on with the next root, or returns the resolved file,
  and the function returns at once.
\<close>

fun searchRoots :: "env \<Rightarrow> string \<Rightarrow> string \<Rightarrow> pluginOpts \<Rightarrow> string list \<Rightarrow> string option" where
  "searchRoots E source file pluginOpts [] = None"
| "searchRoots E source file pluginOpts (rootDir # rest) =
     (case probeRoot E pluginOpts source rootDir of
        Inr resolvedSourceFile \<Rightarrow> Some (rootRewrite E source file resolvedSourceFile)
      | Inl e \<Rightarrow> searchRoots E source file pluginOpts rest)"

text \<open>
  The alias loop: while segments remain, look the joined segments up in the table and
  stop at a hit, else drop the last segment.  The result is the state after the loop:
  the remaining segments and \<^verbatim>\<open>aliasPath\<close>, which is still undefined (\<open>None\<close>)
  when the segments ran out.
\<close>

function aliasLoop :: "(string \<rightharpoonup> string) \<Rightarrow> string list \<Rightarrow> string list \<times> string option" where
  "aliasLoop aliasMapping moduleSplit =
     (if moduleSplit = [] then (moduleSplit, None)
      else (case aliasMapping (js_join moduleSplit) of
              Some aliasPath \<Rightarrow> (moduleSplit, Some aliasPath)
            | None \<Rightarrow> aliasLoop aliasMapping (butlast moduleSplit)))"
  by pat_completeness auto
termination
  by (relation "measure (\<lambda>(aliasMapping, moduleSplit). length moduleSplit)") auto

declare aliasLoop.simps [simp del]

text \<open>
  The alias phase, reached when no root directory resolved the specifier.  The test
  \<^verbatim>\<open>!aliasPath\<close> holds when the loop found nothing and also when it found the empty
  string.
\<close>

definition aliasPhase :: "env \<Rightarrow> string \<Rightarrow> string \<Rightarrow> pluginOpts \<Rightarrow> string option" where
  "aliasPhase E source file pluginOpts =
     (case aliasLoop (createAliasFileMap pluginOpts) (js_split source) of
        (moduleSplit, None) \<Rightarrow> None
      | (moduleSplit, Some found) \<Rightarrow>
          (if found = [] then None
           else (let aliasPath = stripNpm found;
                     newPath = js_replace source (js_join moduleSplit) aliasPath
                 in if \<not> startsWithDot aliasPath then Some newPath
                    else Some (toLocalPath E (toPosixPath E (mapToRelative E file newPath))))))"

text \<open>\<^verbatim>\<open>mapModule(source, file, pluginOpts)\<close>; \<^verbatim>\<open>null\<close> is \<open>None\<close>.\<close>

definition mapModule :: "env \<Rightarrow> string \<Rightarrow> string \<Rightarrow> pluginOpts \<Rightarrow> string option" where
  "mapModule E source file pluginOpts =
     (if startsWithDot source then None
      else (case searchRoots E source file pluginOpts (rootDirs pluginOpts) of
              Some rewrite \<Rightarrow> Some rewrite
            | None \<Rightarrow> aliasPhase E source file pluginOpts))"

text \<open>
  The calls of the probe that one run of \<^verbatim>\<open>mapModule\<close> makes, in order, each with
  its three arguments (request, base directory, extension list).  The function follows
  the control flow of \<^verbatim>\<open>mapModule\<close>: no call for a specifier that starts with a dot,
  then one call per root until the first probe that returns.
\<close>

fun probeCalls :: "env \<Rightarrow> string \<Rightarrow> pluginOpts \<Rightarrow> string list \<Rightarrow> (string \<times> string \<times> string list) list" where
  "probeCalls E source pluginOpts [] = []"
| "probeCalls E source pluginOpts (rootDir # rest) =
     (''./'' @ source, path_resolve E rootDir, probeExtensions pluginOpts) #
     (case probeRoot E pluginOpts source rootDir of
        Inr resolvedSourceFile \<Rightarrow> []
      | Inl e \<Rightarrow> probeCalls E source pluginOpts rest)"

definition mapModuleProbes :: "env \<Rightarrow> string \<Rightarrow> pluginOpts \<Rightarrow> (string \<times> string \<times> string list) list" where
  "mapModuleProbes E source pluginOpts =
     (if startsWithDot source then [] else probeCalls E source pluginOpts (rootDirs pluginOpts))"

section \<open>The visitor: rewriting call sites and stub maps\<close>

text \<open>
  The syntax tree, as far as the transformation reads it: a string literal, an object
  expression with its properties (each a key node and a value node), and any other node,
  which the transformation never looks into.  A call expression has a callee and its
  arguments; \<^verbatim>\<open>nodePath.replaceWith\<close> is modelled by returning the new node.
\<close>

datatype 'a node =
    StringLiteral string
  | ObjectExpression "('a node \<times> 'a node) list"
  | OtherNode 'a

record 'a callExpression =
  callee :: 'a
  arguments :: "'a node list"

text \<open>
  The plugin pass: \<^verbatim>\<open>state.file.opts.filename\<close> and \<^verbatim>\<open>state.opts\<close>.
\<close>

record pluginPass =
  file_opts_filename :: string
  opts :: pluginOpts

text \<open>\<^verbatim>\<open>node.value\<close> of a string literal (undefined, here empty, on another node).\<close>

fun nodeValue :: "'a node \<Rightarrow> string" where
  "nodeValue (StringLiteral v) = v"
| "nodeValue other = []"

text \<open>
  \<^verbatim>\<open>transformModulePath(module, state, filename)\<close>.  The argument may be missing
  (\<open>None\<close>); \<^verbatim>\<open>filename || state.file.opts.filename\<close> takes the file of the pass
  when the file name is missing or empty; \<^verbatim>\<open>if (modulePath)\<close> fails on
  \<^verbatim>\<open>null\<close> and on the empty string.
\<close>

definition transformModulePath :: "env \<Rightarrow> 'a node option \<Rightarrow> pluginPass \<Rightarrow> string option \<Rightarrow> 'a node option" where
  "transformModulePath E module state filename =
     (case module of
        Some (StringLiteral v) \<Rightarrow>
          (case mapModule E v
                  (case filename of
                     None \<Rightarrow> file_opts_filename state
                   | Some f \<Rightarrow> if f = [] then file_opts_filename state else f)
                  (opts state) of
             None \<Rightarrow> None
           | Some modulePath \<Rightarrow> if modulePath = [] then None else Some (StringLiteral modulePath))
      | _ \<Rightarrow> None)"

text \<open>
  \<^verbatim>\<open>transformCallExpression(nodePath, modulePath, restArgsIndex = 1, args)\<close>: the
  call is replaced by a call of the same callee.
\<close>

definition transformCallExpression :: "'a callExpression \<Rightarrow> 'a node \<Rightarrow> nat \<Rightarrow> 'a node list option \<Rightarrow> 'a callExpression" where
  "transformCallExpression nodePath modulePath restArgsIndex args =
     (let callArgs = (case args of
                        Some given \<Rightarrow> modulePath # given
                      | None \<Rightarrow> modulePath # drop restArgsIndex (arguments nodePath))
      in nodePath\<lparr>arguments := callArgs\<rparr>)"

definition transformObjectExpression :: "env \<Rightarrow> string \<Rightarrow> ('a node \<times> 'a node) list \<Rightarrow> pluginPass \<Rightarrow> 'a node" where
  "transformObjectExpression E modulePath properties state =
     ObjectExpression
       (map (\<lambda>property.
               (case transformModulePath E (Some (fst property)) state (Some modulePath) of
                  Some propPath \<Rightarrow> (propPath, snd property)
                | None \<Rightarrow> property))
            properties)"

text \<open>
  \<^verbatim>\<open>nodePath.node.arguments[i]\<close>, undefined (\<open>None\<close>) past the end.
\<close>

definition argumentAt :: "'a callExpression \<Rightarrow> nat \<Rightarrow> 'a node option" where
  "argumentAt nodePath i =
     (if i < length (arguments nodePath) then Some (arguments nodePath ! i) else None)"

text \<open>
  \<^verbatim>\<open>transformProxyquireCall(nodePath, state)\<close>.  Whether the call is a proxyquire
  call is decided by \<^verbatim>\<open>isProxyquireCall\<close> on the callee, a parameter here.  The
  second \<^verbatim>\<open>transformCallExpression\<close> runs in every case, on the node the first one
  left.
\<close>

definition transformProxyquireCall :: "env \<Rightarrow> ('a \<Rightarrow> bool) \<Rightarrow> 'a callExpression \<Rightarrow> pluginPass \<Rightarrow> 'a callExpression" where
  "transformProxyquireCall E isProxyquireCall nodePath state =
     (if \<not> isProxyquireCall (callee nodePath) then nodePath
      else (case transformModulePath E (argumentAt nodePath 0) state None of
              None \<Rightarrow> nodePath
            | Some modulePath \<Rightarrow>
                (let replaced =
                       (case argumentAt nodePath 1 of
                          Some (ObjectExpression properties) \<Rightarrow>
                            transformCallExpression nodePath modulePath 2
                              (Some [transformObjectExpression E (nodeValue modulePath) properties state])
                        | _ \<Rightarrow> nodePath)
                 in transformCallExpression replaced modulePath 1 None)))"

section \<open>A concrete environment: POSIX paths and a small file tree\<close>

text \<open>
  The theorems below hold for every environment.  To evaluate \<^verbatim>\<open>mapModule\<close> on
  concrete inputs, this section gives one environment: Node's \<^verbatim>\<open>path\<close> functions in
  their POSIX flavour, a probe over a fixed list of files, and the three helpers of the
  sibling modules.
\<close>

definition isSlash :: "char \<Rightarrow> bool" where
  "isSlash c = (c = CHR ''/'')"

text \<open>
  The segment walk of \<^verbatim>\<open>path.normalize\<close>: empty segments and single dots are
  dropped, a double dot removes the segment before it, and is kept when nothing is left
  to remove and the path is relative.  The stack holds the result in reverse.
\<close>

fun normalizeStack :: "bool \<Rightarrow> string list \<Rightarrow> string list \<Rightarrow> string list" where
  "normalizeStack allowAboveRoot stack [] = rev stack"
| "normalizeStack allowAboveRoot stack (seg # segs) =
     (if seg = [] \<or> seg = ''.'' then normalizeStack allowAboveRoot stack segs
      else if seg = ''..'' then
        (case stack of
           prev # below \<Rightarrow>
             (if prev \<noteq> ''..'' then normalizeStack allowAboveRoot below segs
              else if allowAboveRoot then normalizeStack allowAboveRoot (seg # stack) segs
              else normalizeStack allowAboveRoot stack segs)
         | [] \<Rightarrow>
             (if allowAboveRoot then normalizeStack allowAboveRoot [seg] segs
              else normalizeStack allowAboveRoot [] segs))
      else normalizeStack allowAboveRoot (seg # stack) segs)"

definition posix_normalize :: "string \<Rightarrow> string" where
  "posix_normalize p =
     (if p = [] then ''.''
      else (let isAbsolute = isSlash (hd p);
                trailingSeparator = isSlash (last p);
                path = js_join (normalizeStack (\<not> isAbsolute) [] (js_split p))
            in if path = [] then (if isAbsolute then ''/'' else if trailingSeparator then ''./'' else ''.'')
               else (if isAbsolute then ''/'' else []) @ path @ (if trailingSeparator then ''/'' else [])))"

definition posix_join :: "string \<Rightarrow> string \<Rightarrow> string" where
  "posix_join a b =
     (let joined = (if a = [] then b else if b = [] then a else a @ ''/'' @ b)
      in if joined = [] then ''.'' else posix_normalize joined)"

text \<open>\<^verbatim>\<open>path.resolve\<close> against the working directory \<open>cwd\<close>, an absolute path.\<close>

definition posix_resolve :: "string \<Rightarrow> string \<Rightarrow> string" where
  "posix_resolve cwd p =
     CHR ''/'' # js_join (normalizeStack False []
                           (js_split (if prefix ''/'' p then p else cwd @ ''/'' @ p)))"

text \<open>
  A segment that stands for a file or directory name: not empty, without a slash, and
  neither a single nor a double dot.
\<close>

definition plainSegment :: "string \<Rightarrow> bool" where
  "plainSegment f = (f \<noteq> [] \<and> CHR ''/'' \<notin> set f \<and> f \<noteq> ''.'' \<and> f \<noteq> ''..'')"

text \<open>The last component of a path, trailing slashes ignored.\<close>

definition lastComponent :: "string \<Rightarrow> string" where
  "lastComponent p = rev (takeWhile (\<lambda>c. \<not> isSlash c) (dropWhile isSlash (rev p)))"

definition posix_dirname :: "string \<Rightarrow> string" where
  "posix_dirname p =
     (if p = [] then ''.''
      else (let hasRoot = isSlash (hd p);
                trimmed = rev (dropWhile isSlash (rev (tl p)));
                upToSlash = rev (dropWhile (\<lambda>c. \<not> isSlash c) (rev trimmed));
                cut = length upToSlash
            in if upToSlash = [] then (if hasRoot then ''/'' else ''.'')
               else if hasRoot \<and> cut = 1 then ''//''
               else take cut p))"

definition posix_basename :: "string \<Rightarrow> string \<Rightarrow> string" where
  "posix_basename p ext =
     (let base = lastComponent p
      in if ext \<noteq> [] \<and> length ext \<le> length p
         then (if ext = p then []
               else if suffix ext base \<and> ext \<noteq> base then take (length base - length ext) base
               else base)
         else base)"

text \<open>
  \<^verbatim>\<open>path.extname\<close>: from the last dot of the last component to its end; empty when
  there is no dot, when the dot is the first character of the component, and when the
  component is a double dot.
\<close>

definition posix_extname :: "string \<Rightarrow> string" where
  "posix_extname p =
     (let base = lastComponent p;
          afterDot = rev (takeWhile (\<lambda>c. c \<noteq> CHR ''.'') (rev base))
      in if CHR ''.'' \<notin> set base then []
         else if length afterDot + 1 = length base then []
         else if base = ''..'' then []
         else CHR ''.'' # afterDot)"

text \<open>
  The probe over a list of existing files, after the \<^verbatim>\<open>resolve\<close> package: the
  request is resolved against the base directory and tried as a file (as it is, then
  with each extension in order), then as a directory through its index file.  It fails
  with an exception when no candidate exists.
\<close>

definition fsProbe :: "string list \<Rightarrow> string \<Rightarrow> string \<Rightarrow> string list \<Rightarrow> exn + string" where
  "fsProbe files request basedir exts =
     (let x = posix_resolve basedir request;
          asFile = x # map (\<lambda>e. x @ e) exts;
          index = x @ ''/index'';
          asDirectory = index # map (\<lambda>e. index @ e) exts
      in (case List.find (\<lambda>f. f \<in> set files) (asFile @ asDirectory) of
            Some f \<Rightarrow> Inr f
          | None \<Rightarrow> Inl (Exn (''Cannot find module '' @ request))))"

text \<open>
  Modelled from the spec: \<^verbatim>\<open>toPosixPath\<close> of the module \<^verbatim>\<open>utils\<close>, which is not
  among the sources.  The spec (4.1, \<^verbatim>\<open>toPosix\<close>): it rewrites OS-specific directory
  separators to forward slashes, with no other normalization.
\<close>

definition toPosix :: "string \<Rightarrow> string" where
  "toPosix p = map (\<lambda>c. if c = CHR 0x5C then CHR ''/'' else c) p"

text \<open>
  Modelled from the spec: \<^verbatim>\<open>toLocalPath\<close> of the module \<^verbatim>\<open>utils\<close>, which is not
  among the sources.  The spec (4.1, \<^verbatim>\<open>toExplicitRelative\<close>): if the path does not
  already begin with \<^verbatim>\<open>./\<close> or \<^verbatim>\<open>../\<close>, prepend \<^verbatim>\<open>./\<close>.
\<close>

definition toExplicitRelative :: "string \<Rightarrow> string" where
  "toExplicitRelative p = (if prefix ''./'' p \<or> prefix ''../'' p then p else ''./'' @ p)"

text \<open>
  Modelled from the spec: \<^verbatim>\<open>mapToRelative\<close> of the module of that name, which is not
  among the sources.  The spec (4.1, \<^verbatim>\<open>relativeFrom\<close>): the relative path from the
  directory containing \<^verbatim>\<open>fromFile\<close> to \<^verbatim>\<open>toFile\<close>, with shared-prefix elision and
  a double dot for each ascent.  Both paths are taken against the working directory.
\<close>

fun dropShared :: "string list \<Rightarrow> string list \<Rightarrow> string list \<times> string list" where
  "dropShared (x # xs) (y # ys) = (if x = y then dropShared xs ys else (x # xs, y # ys))"
| "dropShared xs ys = (xs, ys)"

definition absoluteSegments :: "string \<Rightarrow> string \<Rightarrow> string list" where
  "absoluteSegments cwd p =
     normalizeStack False [] (js_split (if prefix ''/'' p then p else cwd @ ''/'' @ p))"

definition relativeFrom :: "string \<Rightarrow> string \<Rightarrow> string \<Rightarrow> string" where
  "relativeFrom cwd fromFile toFile =
     (case dropShared (absoluteSegments cwd (posix_dirname fromFile)) (absoluteSegments cwd toFile) of
        (ups, downs) \<Rightarrow> js_join (replicate (length ups) ''..'' @ downs))"

definition posixEnv :: "string \<Rightarrow> string list \<Rightarrow> env" where
  "posixEnv cwd files =
     \<lparr> resolveSync = fsProbe files,
       path_resolve = posix_resolve cwd,
       path_extname = posix_extname,
       path_basename = posix_basename,
       path_dirname = posix_dirname,
       path_join = posix_join,
       mapToRelative = relativeFrom cwd,
       toLocalPath = toExplicitRelative,
       toPosixPath = toPosix \<rparr>"

text \<open>
  A project in \<^verbatim>\<open>/proj\<close> with two roots, \<^verbatim>\<open>lib/components\<close> and
  \<^verbatim>\<open>lib/foo\<close>; the module \<^verbatim>\<open>c1\<close> exists under both.
\<close>

definition projFiles :: "string list" where
  "projFiles =
     [''/proj/lib/components/c1.js'',
      ''/proj/lib/components/c2.js'',
      ''/proj/lib/components/sub/sub1.js'',
      ''/proj/lib/components/sub/sub1.css'',
      ''/proj/lib/components/sub/custom.modernizr3.js'',
      ''/proj/lib/foo/c1.js'',
      ''/proj/lib/foo/bar.js'',
      ''/proj/lib/foo/bar/x.js'']"

definition projEnv :: env where
  "projEnv = posixEnv ''/proj'' projFiles"

definition projRoots :: pluginOpts where
  "projRoots = \<lparr> root = Some [''./lib/components'', ''./lib/foo''], alias_opt = None, extensions = None \<rparr>"

definition projAliases :: pluginOpts where
  "projAliases =
     \<lparr> root = None,
       alias_opt = Some [''utils'' \<mapsto> ''./src/mylib/subfolder/utils'',
                         ''awesome/components'' \<mapsto> ''./src/components'',
                         ''abstract'' \<mapsto> ''npm:concrete'',
                         ''underscore'' \<mapsto> ''lodash''],
       extensions = None \<rparr>"

text \<open>Both roots and the alias table, and a table with an empty target.\<close>

definition projBoth :: pluginOpts where
  "projBoth = projRoots\<lparr>alias_opt := alias_opt projAliases\<rparr>"

definition projEmptyTarget :: pluginOpts where
  "projEmptyTarget =
     \<lparr> root = Some [''./lib/components'', ''./lib/foo''],
       alias_opt = Some [''utils'' \<mapsto> [], ''awesome/components'' \<mapsto> [], ''underscore'' \<mapsto> []],
       extensions = None \<rparr>"

text \<open>A table whose targets hold replacement patterns.\<close>

definition projDollar :: pluginOpts where
  "projDollar =
     \<lparr> root = Some [''./lib/components'', ''./lib/foo''],
       alias_opt = Some [''awesome/components'' \<mapsto> ''./src/$&'', ''underscore'' \<mapsto> ''lo$$dash''],
       extensions = None \<rparr>"

text \<open>A proxyquire call with a stub map, in a file of the working directory.\<close>

definition projPass :: pluginPass where
  "projPass = \<lparr> file_opts_filename = ''unknown'', opts = projRoots \<rparr>"

definition stubCall :: "string callExpression" where
  "stubCall =
     \<lparr> callee = ''proxyquire'',
       arguments = [StringLiteral ''c1'',
                    ObjectExpression [(StringLiteral ''c2'', OtherNode ''stub''),
                                      (StringLiteral ''other-lib'', OtherNode ''fake''),
                                      (OtherNode ''key'', OtherNode ''stub'')]] \<rparr>"

text \<open>
  The same kind of call in a file below the working directory:
  \<^verbatim>\<open>proxyquire("bar", { "c1": stub })\<close> in \<^verbatim>\<open>./lib/foo/bar/x.js\<close>.
\<close>

definition nestedPass :: pluginPass where
  "nestedPass = \<lparr> file_opts_filename = ''./lib/foo/bar/x.js'', opts = projRoots \<rparr>"

definition nestedStubCall :: "string callExpression" where
  "nestedStubCall =
     \<lparr> callee = ''proxyquire'',
       arguments = [StringLiteral ''bar'',
                    ObjectExpression [(StringLiteral ''c1'', OtherNode ''stub'')]] \<rparr>"

text \<open>
  A probe that answers as the probe of the project does when it is given the extension
  list \<open>known\<close>, and throws for every other list.
\<close>

definition oneListProbe :: "string list \<Rightarrow> string \<Rightarrow> string \<Rightarrow> string list \<Rightarrow> exn + string" where
  "oneListProbe known request basedir exts =
     (if exts = known then fsProbe projFiles request basedir exts
      else Inl (Exn ''unexpected extension list''))"

section \<open>Properties\<close>

subsection \<open>Strings and the two loops\<close>

lemma js_split_nonempty: "js_split s \<noteq> []"
  by (induction s) (auto split: list.splits)

lemma js_join_Cons: "js_join (x # xs) = (if xs = [] then x else x @ CHR ''/'' # js_join xs)"
  by (cases xs) auto

lemma js_join_split: "js_join (js_split s) = s"
proof (induction s)
  case Nil show ?case by simp
next
  case (Cons c cs)
  obtain x xs where sp: "js_split cs = x # xs" using js_split_nonempty[of cs] by (cases "js_split cs") auto
  show ?case using Cons sp by (cases "xs = []") (simp_all add: js_join_Cons)
qed

lemma js_join_append:
  "js_join (xs @ ys) =
     (if xs = [] then js_join ys else if ys = [] then js_join xs
      else js_join xs @ CHR ''/'' # js_join ys)"
proof (induction xs)
  case Nil show ?case by simp
next
  case (Cons x xs)
  show ?case using Cons by (simp add: js_join_Cons)
qed

lemma getSubstitution_plain:
  "\<not> hasDollarPattern repl \<Longrightarrow> getSubstitution m b a repl = repl"
  by (induction m b a repl rule: getSubstitution.induct) auto

lemma js_replace_prefix:
  "prefix pat s \<Longrightarrow>
     js_replace s pat repl = getSubstitution pat [] (drop (length pat) s) repl @ drop (length pat) s"
  by (simp add: js_replace_def js_replace_from.simps[of "[]" s])

lemma js_join_take_prefix: "prefix (js_join (take n segs)) (js_join segs)"
proof -
  have "js_join (take n segs @ drop n segs) =
      (if take n segs = [] then js_join (drop n segs)
       else if drop n segs = [] then js_join (take n segs)
       else js_join (take n segs) @ CHR ''/'' # js_join (drop n segs))"
    by (rule js_join_append)
  then have eq: "js_join segs =
      (if take n segs = [] then js_join (drop n segs)
       else if drop n segs = [] then js_join (take n segs)
       else js_join (take n segs) @ CHR ''/'' # js_join (drop n segs))"
    by simp
  show ?thesis
  proof (cases "take n segs = []")
    case True
    then have "js_join (take n segs) = []" by (simp only: js_join.simps)
    then show ?thesis by simp
  next
    case False
    show ?thesis
    proof (cases "drop n segs = []")
      case True with False eq show ?thesis by simp
    next
      case d: False
      from False d eq have "js_join segs = js_join (take n segs) @ CHR ''/'' # js_join (drop n segs)"
        by simp
      then show ?thesis by (simp add: prefix_def)
    qed
  qed
qed

lemma aliasLoop_none:
  "(\<And>k. 1 \<le> k \<Longrightarrow> k \<le> length segs \<Longrightarrow> am (js_join (take k segs)) = None) \<Longrightarrow>
   aliasLoop am segs = ([], None)"
proof (induction am segs rule: aliasLoop.induct)
  case (1 am segs)
  show ?case
  proof (cases "segs = []")
    case True then show ?thesis by (simp add: aliasLoop.simps[of am "[]"])
  next
    case False
    then have len: "1 \<le> length segs" by (cases segs) auto
    have n: "am (js_join segs) = None" using "1.prems"[of "length segs"] len by simp
    have "aliasLoop am (butlast segs) = ([], None)"
    proof (rule "1.IH"[OF False n])
      fix k assume "1 \<le> k" "k \<le> length (butlast segs)"
      then show "am (js_join (take k (butlast segs))) = None"
        using "1.prems"[of k] by (simp add: take_butlast)
    qed
    then show ?thesis using False n by (simp add: aliasLoop.simps[of am segs])
  qed
qed

lemma aliasLoop_found:
  "1 \<le> n \<Longrightarrow> n \<le> length segs \<Longrightarrow> am (js_join (take n segs)) = Some t \<Longrightarrow>
   (\<And>k. n < k \<Longrightarrow> k \<le> length segs \<Longrightarrow> am (js_join (take k segs)) = None) \<Longrightarrow>
   aliasLoop am segs = (take n segs, Some t)"
proof (induction am segs rule: aliasLoop.induct)
  case (1 am segs)
  from "1.prems" have ne: "segs \<noteq> []" by auto
  show ?case
  proof (cases "n = length segs")
    case True
    then show ?thesis using "1.prems" ne by (simp add: aliasLoop.simps[of am segs])
  next
    case False
    then have lt: "n < length segs" using "1.prems" by simp
    have none: "am (js_join segs) = None" using "1.prems"(4)[of "length segs"] lt by simp
    have "aliasLoop am (butlast segs) = (take n (butlast segs), Some t)"
    proof (rule "1.IH"[OF ne none])
      show "1 \<le> n" by fact
      show "n \<le> length (butlast segs)" using lt by simp
      show "am (js_join (take n (butlast segs))) = Some t"
        using "1.prems"(3) lt by (simp add: take_butlast)
      fix k assume "n < k" "k \<le> length (butlast segs)"
      then show "am (js_join (take k (butlast segs))) = None"
        using "1.prems"(4)[of k] by (simp add: take_butlast)
    qed
    then show ?thesis using ne none lt by (simp add: aliasLoop.simps[of am segs] take_butlast)
  qed
qed

lemma isl_probe_cases:
  "isl (probeRoot E pluginOpts source p) \<Longrightarrow> \<exists>e. probeRoot E pluginOpts source p = Inl e"
  by (cases "probeRoot E pluginOpts source p") auto

lemma searchRoots_skip:
  "\<forall>p\<in>set pre. isl (probeRoot E pluginOpts source p) \<Longrightarrow>
   searchRoots E source fromFile pluginOpts (pre @ rest) = searchRoots E source fromFile pluginOpts rest"
proof (induction pre)
  case Nil
  show ?case by simp
next
  case (Cons p pre)
  then obtain e where "probeRoot E pluginOpts source p = Inl e"
    using isl_probe_cases[of E pluginOpts source p] by auto
  with Cons show ?case by simp
qed

lemma searchRoots_all_fail:
  "\<forall>p\<in>set rs. isl (probeRoot E pluginOpts source p) \<Longrightarrow> searchRoots E source fromFile pluginOpts rs = None"
  using searchRoots_skip[where pre = rs and rest = "[]"] by simp

lemma probeCalls_skip:
  "\<forall>p\<in>set pre. isl (probeRoot E pluginOpts source p) \<Longrightarrow>
   probeCalls E source pluginOpts (pre @ rest) =
     map (\<lambda>d. (''./'' @ source, path_resolve E d, probeExtensions pluginOpts)) pre @
     probeCalls E source pluginOpts rest"
proof (induction pre)
  case Nil
  show ?case by simp
next
  case (Cons p pre)
  then obtain e where "probeRoot E pluginOpts source p = Inl e"
    using isl_probe_cases[of E pluginOpts source p] by auto
  with Cons show ?case by simp
qed

lemma searchRoots_first_hit:
  assumes "\<forall>p\<in>set pre. isl (probeRoot E pluginOpts source p)"
    and "probeRoot E pluginOpts source r = Inr resolved"
  shows "searchRoots E source fromFile pluginOpts (pre @ r # post) = Some (rootRewrite E source fromFile resolved)"
  using assms by (simp add: searchRoots_skip)

lemma searchRoots_some_hit:
  "r \<in> set rs \<Longrightarrow> probeRoot E pluginOpts source r = Inr resolved \<Longrightarrow>
   \<exists>r' f. r' \<in> set rs \<and> probeRoot E pluginOpts source r' = Inr f \<and>
          searchRoots E source fromFile pluginOpts rs = Some (rootRewrite E source fromFile f)"
proof (induction rs)
  case Nil
  then show ?case by simp
next
  case (Cons p rs)
  show ?case
  proof (cases "probeRoot E pluginOpts source p")
    case (Inr f)
    then have "searchRoots E source fromFile pluginOpts (p # rs) = Some (rootRewrite E source fromFile f)"
      by simp
    with Inr show ?thesis by (intro exI[of _ p] exI[of _ f]) simp
  next
    case (Inl e)
    with Cons.prems have "r \<in> set rs" by auto
    from Cons.IH[OF this Cons.prems(2)] obtain r' f where
      "r' \<in> set rs" "probeRoot E pluginOpts source r' = Inr f"
      "searchRoots E source fromFile pluginOpts rs = Some (rootRewrite E source fromFile f)" by blast
    with Inl show ?thesis by (intro exI[of _ r'] exI[of _ f]) simp
  qed
qed

lemma probeRoot_alias_update [simp]:
  "probeRoot E (pluginOpts\<lparr>alias_opt := a\<rparr>) source r = probeRoot E pluginOpts source r"
  by (simp add: probeRoot_def probeExtensions_def)

lemma searchRoots_alias_update [simp]:
  "searchRoots E source fromFile (pluginOpts\<lparr>alias_opt := a\<rparr>) rs = searchRoots E source fromFile pluginOpts rs"
  by (induction rs) (simp_all split: sum.splits)

lemma rootDirs_alias_update [simp]: "rootDirs (pluginOpts\<lparr>alias_opt := a\<rparr>) = rootDirs pluginOpts"
  by (simp add: rootDirs_def)

lemma mapModule_no_root:
  assumes "\<not> startsWithDot source"
    and "\<forall>r\<in>set (rootDirs pluginOpts). isl (probeRoot E pluginOpts source r)"
  shows "mapModule E source fromFile pluginOpts = aliasPhase E source fromFile pluginOpts"
  using assms by (simp add: mapModule_def searchRoots_all_fail)

lemma prefix_append_drop: "prefix xs ys \<Longrightarrow> xs @ drop (length xs) ys = ys"
  by (auto simp: prefix_def)

lemma key_is_prefix:
  "js_join (take n (js_split source)) @ drop (length (js_join (take n (js_split source)))) source = source"
proof -
  have "prefix (js_join (take n (js_split source))) (js_join (js_split source))"
    by (rule js_join_take_prefix)
  then have "prefix (js_join (take n (js_split source))) source"
    by (simp add: js_join_split)
  then show ?thesis by (rule prefix_append_drop)
qed

lemma aliasPhase_miss:
  assumes "\<forall>k. 1 \<le> k \<and> k \<le> length (js_split source) \<longrightarrow>
             createAliasFileMap pluginOpts (js_join (take k (js_split source))) = None"
  shows "aliasPhase E source fromFile pluginOpts = None"
proof -
  have "aliasLoop (createAliasFileMap pluginOpts) (js_split source) = ([], None)"
    by (rule aliasLoop_none) (use assms in blast)
  then show ?thesis by (simp add: aliasPhase_def)
qed

lemma aliasPhase_hit:
  assumes "1 \<le> n" and "n \<le> length (js_split source)"
    and "createAliasFileMap pluginOpts (js_join (take n (js_split source))) = Some target"
    and "\<forall>k. n < k \<and> k \<le> length (js_split source) \<longrightarrow>
             createAliasFileMap pluginOpts (js_join (take k (js_split source))) = None"
  shows "aliasPhase E source fromFile pluginOpts =
           (if target = [] then None
            else (let suffix = drop (length (js_join (take n (js_split source)))) source;
                      newPath = getSubstitution (js_join (take n (js_split source))) [] suffix
                                  (stripNpm target) @ suffix
                  in if \<not> startsWithDot (stripNpm target) then Some newPath
                     else Some (toLocalPath E (toPosixPath E (mapToRelative E fromFile newPath)))))"
proof -
  have loop: "aliasLoop (createAliasFileMap pluginOpts) (js_split source) =
                (take n (js_split source), Some target)"
    by (rule aliasLoop_found) (use assms in blast)+
  have "prefix (js_join (take n (js_split source))) (js_join (js_split source))"
    by (rule js_join_take_prefix)
  then have pre: "prefix (js_join (take n (js_split source))) source"
    by (simp add: js_join_split)
  show ?thesis
    by (simp add: aliasPhase_def loop js_replace_prefix[OF pre] Let_def)
qed

lemma hasDollarPattern_drop: "hasDollarPattern (drop k t) \<Longrightarrow> hasDollarPattern t"
proof (induction k arbitrary: t)
  case 0
  then show ?case by simp
next
  case (Suc k)
  show ?case
  proof (cases t)
    case Nil
    with Suc.prems show ?thesis by simp
  next
    case (Cons c r)
    with Suc.prems have "hasDollarPattern (drop k r)" by simp
    then have "hasDollarPattern r" by (rule Suc.IH)
    then show ?thesis using Cons by (cases r) auto
  qed
qed

lemma stripNpm_plain: "\<not> hasDollarPattern t \<Longrightarrow> \<not> hasDollarPattern (stripNpm t)"
  using hasDollarPattern_drop[of 4 t] by (auto simp: stripNpm_def)


subsection \<open>Root rewrites with POSIX paths\<close>

lemma js_split_slashfree: "CHR ''/'' \<notin> set f \<Longrightarrow> js_split f = [f]"
  by (induction f) auto

lemma js_split_append_slash:
  "CHR ''/'' \<notin> set f \<Longrightarrow> js_split (a @ CHR ''/'' # f) = js_split a @ [f]"
proof (induction a)
  case Nil
  then show ?case by (simp add: js_split_slashfree)
next
  case (Cons c a)
  then show ?case by (cases "js_split a") (auto simp: js_split_nonempty)
qed

lemma normalizeStack_append:
  "normalizeStack up st (xs @ ys) = normalizeStack up (rev (normalizeStack up st xs)) ys"
  by (induction up st xs rule: normalizeStack.induct) (auto split: list.splits)

lemma normalizeStack_last:
  "plainSegment f \<Longrightarrow> normalizeStack up st (xs @ [f]) = normalizeStack up st xs @ [f]"
  by (simp add: normalizeStack_append plainSegment_def)

lemma js_join_snoc: "js_join (ys @ [f]) = (if ys = [] then f else js_join ys @ CHR ''/'' # f)"
  using js_join_append[of ys "[f]"] by simp

lemma posix_normalize_last:
  assumes "plainSegment f" and "p = f \<or> (\<exists>d. p = d @ CHR ''/'' # f)"
  shows "\<exists>pre. posix_normalize p = pre @ f \<and> (pre = [] \<or> last pre = CHR ''/'')"
proof -
  have fne: "f \<noteq> []" using assms(1) by (simp add: plainSegment_def)
  then have mem: "last f \<in> set f" by (rule last_in_set)
  have lf: "last f \<noteq> CHR ''/''"
  proof
    assume "last f = CHR ''/''"
    with mem have "CHR ''/'' \<in> set f" by simp
    with assms(1) show False by (simp add: plainSegment_def)
  qed
  from assms(2) fne have ne: "p \<noteq> []" by auto
  from assms(2) fne have "last p = last f" by auto
  with lf have nl: "\<not> isSlash (last p)" by (simp add: isSlash_def)
  from assms obtain xs where sp: "js_split p = xs @ [f]"
    by (auto simp: plainSegment_def js_split_slashfree js_split_append_slash intro: exI[of _ "[]"])
  define ys where "ys = normalizeStack (\<not> isSlash (hd p)) [] xs"
  have st: "normalizeStack (\<not> isSlash (hd p)) [] (js_split p) = ys @ [f]"
    unfolding sp ys_def using assms(1) by (rule normalizeStack_last)
  have j: "js_join (ys @ [f]) = (if ys = [] then f else js_join ys @ CHR ''/'' # f)"
    by (rule js_join_snoc)
  have jne: "js_join (ys @ [f]) \<noteq> []" using assms(1) by (simp add: j plainSegment_def)
  have norm: "posix_normalize p = (if isSlash (hd p) then ''/'' else []) @ js_join (ys @ [f])"
    using ne nl jne by (simp add: posix_normalize_def st Let_def)
  show ?thesis
  proof (cases "ys = []")
    case True
    then have "posix_normalize p = (if isSlash (hd p) then ''/'' else []) @ f"
      using norm j by simp
    then show ?thesis by (intro exI[of _ "if isSlash (hd p) then ''/'' else []"]) simp
  next
    case False
    then have "posix_normalize p = ((if isSlash (hd p) then ''/'' else []) @ js_join ys @ ''/'') @ f"
      using norm j by simp
    then show ?thesis
      by (intro exI[of _ "(if isSlash (hd p) then ''/'' else []) @ js_join ys @ ''/''"]) simp
  qed
qed

lemma posix_join_last:
  assumes "plainSegment f"
  shows "\<exists>pre. posix_join d f = pre @ f \<and> (pre = [] \<or> last pre = CHR ''/'')"
proof -
  have fne: "f \<noteq> []" using assms by (simp add: plainSegment_def)
  show ?thesis
  proof (cases "d = []")
    case True
    then have "posix_join d f = posix_normalize f" using fne by (simp add: posix_join_def)
    with posix_normalize_last[OF assms, of f] show ?thesis by simp
  next
    case False
    then have "posix_join d f = posix_normalize (d @ CHR ''/'' # f)"
      using fne by (simp add: posix_join_def)
    with posix_normalize_last[OF assms, of "d @ CHR ''/'' # f"] show ?thesis by auto
  qed
qed

lemma lastComponent_append:
  assumes "f \<noteq> []" and "CHR ''/'' \<notin> set f" and "pre = [] \<or> last pre = CHR ''/''"
  shows "lastComponent (pre @ f) = f"
proof -
  have d: "dropWhile isSlash (rev f @ rev pre) = rev f @ rev pre"
    using assms(1,2) by (cases "rev f") (auto simp: isSlash_def)
  have t: "takeWhile (\<lambda>c. \<not> isSlash c) (rev f @ rev pre) = rev f"
  proof (cases "pre = []")
    case True
    then show ?thesis using assms(2) by (auto simp: isSlash_def)
  next
    case False
    with assms(3) have "hd (rev pre) = CHR ''/''" by (simp add: hd_rev)
    moreover from False have "rev pre \<noteq> []" by simp
    ultimately obtain ps where "rev pre = CHR ''/'' # ps" by (cases "rev pre") auto
    then show ?thesis using assms(2) by (auto simp: takeWhile_append isSlash_def)
  qed
  show ?thesis by (simp add: lastComponent_def d t)
qed

lemma replaceExt_posix_filename:
  assumes "plainSegment (posix_basename p (posix_extname p) @ ext)"
  shows "lastComponent (replaceExt (posixEnv cwd files) p ext) = posix_basename p (posix_extname p) @ ext"
proof -
  from posix_join_last[OF assms, of "posix_dirname p"] obtain pre where
    "posix_join (posix_dirname p) (posix_basename p (posix_extname p) @ ext) =
       pre @ posix_basename p (posix_extname p) @ ext"
    "pre = [] \<or> last pre = CHR ''/''" by blast
  moreover have "posix_basename p (posix_extname p) @ ext \<noteq> []"
    "CHR ''/'' \<notin> set (posix_basename p (posix_extname p) @ ext)"
    using assms by (simp_all add: plainSegment_def)
  ultimately show ?thesis
    using lastComponent_append[of "posix_basename p (posix_extname p) @ ext" pre]
    by (simp add: replaceExt_def posixEnv_def Let_def)
qed

lemma posix_extname_suffix:
  "posix_extname p = [] \<or>
   (suffix (posix_extname p) (lastComponent p) \<and> length (posix_extname p) < length (lastComponent p))"
proof -
  define base where "base = lastComponent p"
  define afterDot where "afterDot = rev (takeWhile (\<lambda>c. c \<noteq> CHR ''.'') (rev base))"
  show ?thesis
  proof (cases "CHR ''.'' \<in> set base")
    case False
    then show ?thesis by (simp add: posix_extname_def base_def Let_def)
  next
    case True
    then have mem: "CHR ''.'' \<in> set (rev base)" by simp
    from split_list_first[OF mem]
    obtain ys zs where sp: "rev base = ys @ CHR ''.'' # zs" and ys: "CHR ''.'' \<notin> set ys"
      by blast
    have tw: "takeWhile (\<lambda>c. c \<noteq> CHR ''.'') (ys @ CHR ''.'' # zs) = ys"
      using ys by (subst takeWhile_append2) auto
    have ad: "afterDot = rev ys" unfolding afterDot_def sp tw by simp
    have "rev (rev base) = rev (ys @ CHR ''.'' # zs)" using sp by simp
    then have b: "base = rev zs @ CHR ''.'' # afterDot" unfolding ad by simp
    then have "suffix (CHR ''.'' # afterDot) base" by (simp add: suffix_def)
    moreover have "length afterDot + 1 \<noteq> length base \<Longrightarrow> length (CHR ''.'' # afterDot) < length base"
      using b by (cases "rev zs") auto
    ultimately show ?thesis
      unfolding posix_extname_def Let_def base_def[symmetric] afterDot_def[symmetric]
      by auto
  qed
qed

lemma posix_basename_extname:
  "posix_basename p (posix_extname p) @ posix_extname p = lastComponent p"
proof -
  have len: "length (lastComponent p) \<le> length p"
    unfolding lastComponent_def
    by (metis (no_types, lifting) le_trans length_dropWhile_le length_rev length_takeWhile_le)
  from posix_extname_suffix[of p] show ?thesis
  proof
    assume "posix_extname p = []"
    then show ?thesis by (simp add: posix_basename_def)
  next
    assume a: "suffix (posix_extname p) (lastComponent p) \<and>
               length (posix_extname p) < length (lastComponent p)"
    then have ne: "posix_extname p \<noteq> p" "posix_extname p \<noteq> lastComponent p"
      and le: "length (posix_extname p) \<le> length p"
      using len by auto
    from a obtain xs where xs: "lastComponent p = xs @ posix_extname p" by (auto simp: suffix_def)
    then have "take (length (lastComponent p) - length (posix_extname p)) (lastComponent p) = xs"
      by simp
    then show ?thesis using a ne le xs by (simp add: posix_basename_def Let_def)
  qed
qed

lemma toPosix_append: "toPosix (a @ b) = toPosix a @ toPosix b"
  by (simp add: toPosix_def)

lemma toPosix_plain: "CHR 0x5C \<notin> set f \<Longrightarrow> toPosix f = f"
  by (induction f) (auto simp: toPosix_def)

lemma toPosix_last_slash: "pre = [] \<or> last pre = CHR ''/'' \<Longrightarrow> toPosix pre = [] \<or> last (toPosix pre) = CHR ''/''"
  by (cases "pre = []") (auto simp: toPosix_def last_map)

lemma toExplicitRelative_last:
  assumes "pre = [] \<or> last pre = CHR ''/''"
  shows "\<exists>pre'. toExplicitRelative (pre @ f) = pre' @ f \<and> (pre' = [] \<or> last pre' = CHR ''/'')"
proof (cases "prefix ''./'' (pre @ f) \<or> prefix ''../'' (pre @ f)")
  case True
  then have "toExplicitRelative (pre @ f) = pre @ f" by (simp add: toExplicitRelative_def)
  with assms show ?thesis by blast
next
  case False
  then have "toExplicitRelative (pre @ f) = (''./'' @ pre) @ f" by (simp add: toExplicitRelative_def)
  moreover have "''./'' @ pre = [] \<or> last (''./'' @ pre) = CHR ''/''" using assms by auto
  ultimately show ?thesis by blast
qed

lemma rootRewrite_posix_filename:
  assumes "rel = relativeFrom cwd fromFile resolved"
    and "ext = (if posix_extname resolved = posix_extname source then posix_extname source else [])"
    and "plainSegment (posix_basename rel (posix_extname rel) @ ext)"
    and "CHR 0x5C \<notin> set (posix_basename rel (posix_extname rel) @ ext)"
  shows "lastComponent (rootRewrite (posixEnv cwd files) source fromFile resolved) =
           posix_basename rel (posix_extname rel) @ ext"
proof -
  define f where "f = posix_basename rel (posix_extname rel) @ ext"
  have plain: "plainSegment f" and nobs: "CHR 0x5C \<notin> set f"
    using assms(3,4) by (simp_all add: f_def)
  have out: "rootRewrite (posixEnv cwd files) source fromFile resolved =
               toExplicitRelative (toPosix (posix_join (posix_dirname rel) f))"
    using assms(1,2) by (auto simp: rootRewrite_def replaceExt_def posixEnv_def Let_def f_def)
  from posix_join_last[OF plain, of "posix_dirname rel"] obtain pre where
    j: "posix_join (posix_dirname rel) f = pre @ f" and p: "pre = [] \<or> last pre = CHR ''/''"
    by blast
  have "toPosix (pre @ f) = toPosix pre @ f"
    using nobs by (simp add: toPosix_append toPosix_plain)
  moreover from toExplicitRelative_last[OF toPosix_last_slash[OF p], of f] obtain pre' where
    "toExplicitRelative (toPosix pre @ f) = pre' @ f" and "pre' = [] \<or> last pre' = CHR ''/''"
    by blast
  ultimately have "rootRewrite (posixEnv cwd files) source fromFile resolved = pre' @ f"
    and "pre' = [] \<or> last pre' = CHR ''/''"
    using out j by simp_all
  moreover have "f \<noteq> []" "CHR ''/'' \<notin> set f" using plain by (simp_all add: plainSegment_def)
  ultimately show ?thesis
    using lastComponent_append[of f pre'] by (simp add: f_def)
qed

text \<open>
  With POSIX paths, the file name of a root rewrite is the file name of the relative
  path to the resolved file with its extension replaced: by the extension of the
  specifier when the resolved file has the same one, by nothing otherwise.  This holds
  when the new file name is a plain segment without a backslash.
\<close>

theorem posix_file_name_of_root_rewrite:
  assumes "\<not> startsWithDot source"
    and "rootDirs pluginOpts = pre @ r # post"
    and "\<forall>p\<in>set pre. isl (probeRoot (posixEnv cwd files) pluginOpts source p)"
    and "probeRoot (posixEnv cwd files) pluginOpts source r = Inr resolved"
    and "rel = relativeFrom cwd fromFile resolved"
    and "stem = posix_basename rel (posix_extname rel)"
    and "ext = (if posix_extname resolved = posix_extname source then posix_extname source else [])"
    and "plainSegment (stem @ ext)"
    and "CHR 0x5C \<notin> set (stem @ ext)"
  shows "\<exists>out. mapModule (posixEnv cwd files) source fromFile pluginOpts = Some out \<and>
               lastComponent out = stem @ ext \<and>
               lastComponent rel = stem @ posix_extname rel"
proof -
  have "mapModule (posixEnv cwd files) source fromFile pluginOpts =
          Some (rootRewrite (posixEnv cwd files) source fromFile resolved)"
    using assms(1-4) by (simp add: mapModule_def searchRoots_first_hit)
  moreover have "lastComponent (rootRewrite (posixEnv cwd files) source fromFile resolved) = stem @ ext"
    unfolding assms(6)
    by (rule rootRewrite_posix_filename[OF assms(5,7)]) (use assms(6,8,9) in simp_all)
  moreover have "lastComponent rel = stem @ posix_extname rel"
    unfolding assms(6) by (rule posix_basename_extname[symmetric])
  ultimately show ?thesis by blast
qed


theorem posix_file_name_of_root_rewrite_examples:
  "lastComponent (the (mapModule projEnv ''sub/sub1.css'' ''unknown'' projRoots)) = ''sub1.css'' \<and>
   lastComponent (the (mapModule projEnv ''sub/sub1'' ''unknown'' projRoots)) = ''sub1'' \<and>
   plainSegment ''sub1.css'' \<and> plainSegment ''sub1''"
  by code_simp


subsection \<open>The claims\<close>

text \<open>
  C1 (root precedence): let the specifier not start with a dot, and let the configured
  roots be \<open>pre @ r # post\<close>, where the probe throws under every root of \<open>pre\<close> and
  returns \<open>resolved\<close> under \<open>r\<close>.  Then \<^verbatim>\<open>mapModule\<close> returns the rewrite computed
  from \<open>resolved\<close>, and the probe is called for the roots of \<open>pre\<close> and for \<open>r\<close> only:
  the roots of \<open>post\<close> are never consulted, whether they would resolve the specifier or
  not.
\<close>

theorem root_precedence:
  assumes "\<not> startsWithDot source"
    and "rootDirs pluginOpts = pre @ r # post"
    and "\<forall>p\<in>set pre. isl (probeRoot E pluginOpts source p)"
    and "probeRoot E pluginOpts source r = Inr resolved"
  shows "mapModule E source fromFile pluginOpts = Some (rootRewrite E source fromFile resolved) \<and>
         mapModuleProbes E source pluginOpts =
           map (\<lambda>d. (''./'' @ source, path_resolve E d, probeExtensions pluginOpts)) (pre @ [r])"
proof -
  have "searchRoots E source fromFile pluginOpts (rootDirs pluginOpts) = Some (rootRewrite E source fromFile resolved)"
    using assms(2-4) by (simp add: searchRoots_first_hit)
  moreover have "probeCalls E source pluginOpts (rootDirs pluginOpts) =
      map (\<lambda>d. (''./'' @ source, path_resolve E d, probeExtensions pluginOpts)) (pre @ [r])"
    using assms(2-4) by (simp add: probeCalls_skip)
  ultimately show ?thesis
    using assms(1) by (simp add: mapModule_def mapModuleProbes_def)
qed

text \<open>
  The module \<^verbatim>\<open>c1\<close> exists under both roots and is taken from the first one, with a
  single call of the probe; the module \<^verbatim>\<open>bar\<close> exists under the second root only, and
  the failure under the first root is passed over.
\<close>

theorem root_precedence_witness:
  "probeRoot projEnv projRoots ''c1'' ''./lib/components'' = Inr ''/proj/lib/components/c1.js'' \<and>
   probeRoot projEnv projRoots ''c1'' ''./lib/foo'' = Inr ''/proj/lib/foo/c1.js'' \<and>
   mapModule projEnv ''c1'' ''unknown'' projRoots = Some ''./lib/components/c1'' \<and>
   mapModuleProbes projEnv ''c1'' projRoots =
     [(''./c1'', ''/proj/lib/components'', [''.js'', ''.jsx'', ''.es'', ''.es6''])] \<and>
   mapModule projEnv ''bar'' ''./lib/foo/bar/x.js'' projRoots = Some ''../bar'' \<and>
   mapModuleProbes projEnv ''bar'' projRoots =
     [(''./bar'', ''/proj/lib/components'', [''.js'', ''.jsx'', ''.es'', ''.es6'']),
      (''./bar'', ''/proj/lib/foo'', [''.js'', ''.jsx'', ''.es'', ''.es6''])]"
proof -
  have both: "mapModule projEnv ''c1'' ''unknown'' projRoots = Some ''./lib/components/c1'' \<and>
      mapModuleProbes projEnv ''c1'' projRoots =
        [(''./c1'', ''/proj/lib/components'', [''.js'', ''.jsx'', ''.es'', ''.es6''])]"
  proof -
    have nodot: "\<not> startsWithDot ''c1''" by code_simp
    have roots: "rootDirs projRoots = [] @ ''./lib/components'' # [''./lib/foo'']"
      by (simp add: rootDirs_def projRoots_def)
    have pre: "\<forall>p\<in>set []. isl (probeRoot projEnv projRoots ''c1'' p)" by simp
    have first: "probeRoot projEnv projRoots ''c1'' ''./lib/components'' = Inr ''/proj/lib/components/c1.js''"
      by code_simp
    have rw: "rootRewrite projEnv ''c1'' ''unknown'' ''/proj/lib/components/c1.js'' = ''./lib/components/c1''"
      by code_simp
    have args: "map (\<lambda>d. (''./'' @ ''c1'', path_resolve projEnv d, probeExtensions projRoots))
                  ([] @ [''./lib/components'']) =
                [(''./c1'', ''/proj/lib/components'', [''.js'', ''.jsx'', ''.es'', ''.es6''])]"
      by code_simp
    from root_precedence[OF nodot roots pre first, where fromFile = "''unknown''"]
    show ?thesis unfolding rw args by blast
  qed
  have later: "mapModule projEnv ''bar'' ''./lib/foo/bar/x.js'' projRoots = Some ''../bar'' \<and>
      mapModuleProbes projEnv ''bar'' projRoots =
        [(''./bar'', ''/proj/lib/components'', [''.js'', ''.jsx'', ''.es'', ''.es6'']),
         (''./bar'', ''/proj/lib/foo'', [''.js'', ''.jsx'', ''.es'', ''.es6''])]"
  proof -
    have nodot: "\<not> startsWithDot ''bar''" by code_simp
    have roots: "rootDirs projRoots = [''./lib/components''] @ ''./lib/foo'' # []"
      by (simp add: rootDirs_def projRoots_def)
    have miss: "isl (probeRoot projEnv projRoots ''bar'' ''./lib/components'')" by code_simp
    have pre: "\<forall>p\<in>set [''./lib/components'']. isl (probeRoot projEnv projRoots ''bar'' p)"
      using miss by simp
    have hit: "probeRoot projEnv projRoots ''bar'' ''./lib/foo'' = Inr ''/proj/lib/foo/bar.js''"
      by code_simp
    have rw: "rootRewrite projEnv ''bar'' ''./lib/foo/bar/x.js'' ''/proj/lib/foo/bar.js'' = ''../bar''"
      by code_simp
    have args: "map (\<lambda>d. (''./'' @ ''bar'', path_resolve projEnv d, probeExtensions projRoots))
                  ([''./lib/components''] @ [''./lib/foo'']) =
                [(''./bar'', ''/proj/lib/components'', [''.js'', ''.jsx'', ''.es'', ''.es6'']),
                 (''./bar'', ''/proj/lib/foo'', [''.js'', ''.jsx'', ''.es'', ''.es6''])]"
      by code_simp
    from root_precedence[OF nodot roots pre hit, where fromFile = "''./lib/foo/bar/x.js''"]
    show ?thesis unfolding rw args by blast
  qed
  have first: "probeRoot projEnv projRoots ''c1'' ''./lib/components'' = Inr ''/proj/lib/components/c1.js''"
    by code_simp
  have second: "probeRoot projEnv projRoots ''c1'' ''./lib/foo'' = Inr ''/proj/lib/foo/c1.js''"
    by code_simp
  from both later first second show ?thesis by blast
qed

text \<open>
  C2 (longest-prefix alias lookup), as the code has it.  Let the specifier not start
  with a dot and let no root resolve it.  Let the first \<open>n\<close> segments of the specifier,
  joined by slashes, be a key of the alias table, and let no longer prefix of segments
  be a key: this is the key the loop stops at, since it starts from all segments and
  drops the last one after each miss.  If the target of the key is not empty and holds
  none of the replacement patterns of \<^verbatim>\<open>String.prototype.replace\<close>, then the
  specifier is the key followed by a suffix, and the result is the target, a leading
  \<^verbatim>\<open>npm:\<close> removed, followed by that suffix: made relative to the importing file when
  the target starts with a dot, as it is otherwise.
\<close>

theorem longest_prefix_alias:
  assumes "\<not> startsWithDot source"
    and "\<forall>r\<in>set (rootDirs pluginOpts). isl (probeRoot E pluginOpts source r)"
    and "1 \<le> n" and "n \<le> length (js_split source)"
    and "createAliasFileMap pluginOpts (js_join (take n (js_split source))) = Some target"
    and "\<forall>k. n < k \<and> k \<le> length (js_split source) \<longrightarrow>
             createAliasFileMap pluginOpts (js_join (take k (js_split source))) = None"
    and "target \<noteq> []"
    and "\<not> hasDollarPattern target"
  shows "\<exists>suffix. source = js_join (take n (js_split source)) @ suffix \<and>
           mapModule E source fromFile pluginOpts =
             (if startsWithDot (stripNpm target)
              then Some (toLocalPath E (toPosixPath E
                          (mapToRelative E fromFile (stripNpm target @ suffix))))
              else Some (stripNpm target @ suffix))"
proof -
  have plain: "\<not> hasDollarPattern (stripNpm target)"
    using assms(8) by (rule stripNpm_plain)
  have "mapModule E source fromFile pluginOpts =
             (if startsWithDot (stripNpm target)
              then Some (toLocalPath E (toPosixPath E
                          (mapToRelative E fromFile (stripNpm target @
                             drop (length (js_join (take n (js_split source)))) source))))
              else Some (stripNpm target @ drop (length (js_join (take n (js_split source)))) source))"
    using mapModule_no_root[OF assms(1,2)] aliasPhase_hit[OF assms(3-6)] assms(7)
    by (simp add: Let_def getSubstitution_plain[OF plain])
  then show ?thesis
    using key_is_prefix[of n source, symmetric] by blast
qed

text \<open>
  The alias \<^verbatim>\<open>awesome/components\<close> of the repository's tests, for a sub-path and for
  the key itself, in a file of the working directory.
\<close>

theorem longest_prefix_alias_witness:
  "mapModule projEnv ''awesome/components/my-comp'' ''unknown'' projBoth = Some ''./src/components/my-comp'' \<and>
   mapModule projEnv ''awesome/components'' ''unknown'' projBoth = Some ''./src/components''"
proof -
  have dirs: "rootDirs projBoth = [''./lib/components'', ''./lib/foo'']" by code_simp
  have plain: "\<not> hasDollarPattern ''./src/components''" by code_simp
  have nonempty: "''./src/components'' \<noteq> []" by simp
  have rel: "startsWithDot ''./src/components''" by code_simp
  have strip: "stripNpm ''./src/components'' = ''./src/components''" by code_simp
  have sub: "mapModule projEnv ''awesome/components/my-comp'' ''unknown'' projBoth = Some ''./src/components/my-comp''"
  proof -
    have nodot: "\<not> startsWithDot ''awesome/components/my-comp''" by code_simp
    have r1: "isl (probeRoot projEnv projBoth ''awesome/components/my-comp'' ''./lib/components'')"
      by code_simp
    have r2: "isl (probeRoot projEnv projBoth ''awesome/components/my-comp'' ''./lib/foo'')"
      by code_simp
    have roots: "\<forall>r\<in>set (rootDirs projBoth).
                   isl (probeRoot projEnv projBoth ''awesome/components/my-comp'' r)"
      unfolding dirs using r1 r2 by simp
    have segs: "js_split ''awesome/components/my-comp'' = [''awesome'', ''components'', ''my-comp'']"
      by code_simp
    have lo: "(1::nat) \<le> 2" by simp
    have hi: "2 \<le> length (js_split ''awesome/components/my-comp'')" unfolding segs by simp
    have key: "js_join (take 2 (js_split ''awesome/components/my-comp'')) = ''awesome/components''"
      by code_simp
    have hit: "createAliasFileMap projBoth (js_join (take 2 (js_split ''awesome/components/my-comp''))) =
                 Some ''./src/components''"
      by code_simp
    have miss3: "createAliasFileMap projBoth (js_join (take 3 (js_split ''awesome/components/my-comp''))) = None"
      by code_simp
    have longer: "\<forall>k. 2 < k \<and> k \<le> length (js_split ''awesome/components/my-comp'') \<longrightarrow>
        createAliasFileMap projBoth (js_join (take k (js_split ''awesome/components/my-comp''))) = None"
    proof (intro allI impI)
      fix k assume "2 < k \<and> k \<le> length (js_split ''awesome/components/my-comp'')"
      then have "k = 3" unfolding segs by simp
      then show "createAliasFileMap projBoth (js_join (take k (js_split ''awesome/components/my-comp''))) = None"
        using miss3 by simp
    qed
    from longest_prefix_alias[OF nodot roots lo hi hit longer nonempty plain, where fromFile = "''unknown''"]
    have m: "mapModule projEnv ''awesome/components/my-comp'' ''unknown'' projBoth =
            Some (toLocalPath projEnv (toPosixPath projEnv
                    (mapToRelative projEnv ''unknown'' ''./src/components/my-comp'')))"
      unfolding key strip using rel by simp
    moreover have "toLocalPath projEnv (toPosixPath projEnv
                    (mapToRelative projEnv ''unknown'' ''./src/components/my-comp'')) =
                   ''./src/components/my-comp''"
      by code_simp
    ultimately show ?thesis by simp
  qed
  have whole: "mapModule projEnv ''awesome/components'' ''unknown'' projBoth = Some ''./src/components''"
  proof -
    have nodot: "\<not> startsWithDot ''awesome/components''" by code_simp
    have r1: "isl (probeRoot projEnv projBoth ''awesome/components'' ''./lib/components'')"
      by code_simp
    have r2: "isl (probeRoot projEnv projBoth ''awesome/components'' ''./lib/foo'')"
      by code_simp
    have roots: "\<forall>r\<in>set (rootDirs projBoth). isl (probeRoot projEnv projBoth ''awesome/components'' r)"
      unfolding dirs using r1 r2 by simp
    have segs: "js_split ''awesome/components'' = [''awesome'', ''components'']"
      by code_simp
    have lo: "(1::nat) \<le> 2" by simp
    have hi: "2 \<le> length (js_split ''awesome/components'')" unfolding segs by simp
    have key: "js_join (take 2 (js_split ''awesome/components'')) = ''awesome/components''"
      by code_simp
    have hit: "createAliasFileMap projBoth (js_join (take 2 (js_split ''awesome/components''))) =
                 Some ''./src/components''"
      by code_simp
    have longer: "\<forall>k. 2 < k \<and> k \<le> length (js_split ''awesome/components'') \<longrightarrow>
        createAliasFileMap projBoth (js_join (take k (js_split ''awesome/components''))) = None"
      unfolding segs by auto
    from longest_prefix_alias[OF nodot roots lo hi hit longer nonempty plain, where fromFile = "''unknown''"]
    have m: "mapModule projEnv ''awesome/components'' ''unknown'' projBoth =
            Some (toLocalPath projEnv (toPosixPath projEnv
                    (mapToRelative projEnv ''unknown'' ''./src/components'')))"
      unfolding key strip using rel by simp
    moreover have "toLocalPath projEnv (toPosixPath projEnv
                    (mapToRelative projEnv ''unknown'' ''./src/components'')) =
                   ''./src/components''"
      by code_simp
    ultimately show ?thesis by simp
  qed
  from sub whole show ?thesis by blast
qed

text \<open>
  The claim as stated fails on two inputs.  A key whose target is the empty string is
  found by the lookup, yet nothing is replaced: the result is \<^verbatim>\<open>null\<close>, not the
  suffix \<^verbatim>\<open>/my-comp\<close>.  A target \<^verbatim>\<open>./src/$&\<close> is not inserted as it is: the
  pattern expands to the matched key, so the result is not made from
  \<^verbatim>\<open>./src/$&/my-comp\<close>.
\<close>

theorem longest_prefix_alias_counterexample:
  "createAliasFileMap projEmptyTarget ''awesome/components'' = Some [] \<and>
   mapModule projEnv ''awesome/components/my-comp'' ''unknown'' projEmptyTarget = None \<and>
   mapModule projEnv ''awesome/components/my-comp'' ''unknown'' projEmptyTarget \<noteq> Some ''/my-comp'' \<and>
   createAliasFileMap projDollar ''awesome/components'' = Some ''./src/$&'' \<and>
   mapModule projEnv ''awesome/components/my-comp'' ''unknown'' projDollar =
     Some ''./src/awesome/components/my-comp'' \<and>
   mapModule projEnv ''awesome/components/my-comp'' ''unknown'' projDollar \<noteq>
     Some (toLocalPath projEnv (toPosixPath projEnv
            (mapToRelative projEnv ''unknown'' ''./src/$&/my-comp'')))"
  by code_simp

text \<open>
  C3 (extension policy): let the specifier be resolved in the root phase, by the first
  root whose probe returns, to the file \<open>resolved\<close>.  If the extension of the resolved
  file is textually the extension of the specifier as given, the output is the relative
  path to the resolved file with that extension put in place of its own; otherwise it is
  the relative path with its extension removed.  (\<^verbatim>\<open>replaceExt\<close> replaces the
  extension of the last component; the extension is what \<^verbatim>\<open>path.extname\<close> returns.)
\<close>

theorem extension_policy:
  assumes "\<not> startsWithDot source"
    and "rootDirs pluginOpts = pre @ r # post"
    and "\<forall>p\<in>set pre. isl (probeRoot E pluginOpts source p)"
    and "probeRoot E pluginOpts source r = Inr resolved"
  shows "(path_extname E resolved = path_extname E source \<longrightarrow>
            mapModule E source fromFile pluginOpts =
              Some (toLocalPath E (toPosixPath E
                     (replaceExt E (mapToRelative E fromFile resolved) (path_extname E source))))) \<and>
         (path_extname E resolved \<noteq> path_extname E source \<longrightarrow>
            mapModule E source fromFile pluginOpts =
              Some (toLocalPath E (toPosixPath E
                     (replaceExt E (mapToRelative E fromFile resolved) []))))"
proof -
  have "searchRoots E source fromFile pluginOpts (rootDirs pluginOpts) = Some (rootRewrite E source fromFile resolved)"
    using assms(2-4) by (simp add: searchRoots_first_hit)
  then have "mapModule E source fromFile pluginOpts = Some (rootRewrite E source fromFile resolved)"
    using assms(1) by (simp add: mapModule_def)
  then show ?thesis by (simp add: rootRewrite_def Let_def)
qed

text \<open>
  The three cases of the repository's tests: a stylesheet keeps \<^verbatim>\<open>.css\<close>, a module
  found as \<^verbatim>\<open>sub1.js\<close> loses \<^verbatim>\<open>.js\<close>, and so does a module whose name holds a
  dot, found as \<^verbatim>\<open>custom.modernizr3.js\<close>.
\<close>

theorem extension_policy_witness:
  "mapModule projEnv ''sub/sub1.css'' ''unknown'' projRoots = Some ''./lib/components/sub/sub1.css'' \<and>
   mapModule projEnv ''sub/sub1'' ''unknown'' projRoots = Some ''./lib/components/sub/sub1'' \<and>
   mapModule projEnv ''sub/custom.modernizr3'' ''unknown'' projRoots =
     Some ''./lib/components/sub/custom.modernizr3''"
proof -
  have roots: "rootDirs projRoots = [] @ ''./lib/components'' # [''./lib/foo'']"
    by (simp add: rootDirs_def projRoots_def)
  have css: "mapModule projEnv ''sub/sub1.css'' ''unknown'' projRoots = Some ''./lib/components/sub/sub1.css''"
  proof -
    have nodot: "\<not> startsWithDot ''sub/sub1.css''" by code_simp
    have pre: "\<forall>p\<in>set []. isl (probeRoot projEnv projRoots ''sub/sub1.css'' p)" by simp
    have probe: "probeRoot projEnv projRoots ''sub/sub1.css'' ''./lib/components'' =
                   Inr ''/proj/lib/components/sub/sub1.css''"
      by code_simp
    have same: "path_extname projEnv ''/proj/lib/components/sub/sub1.css'' =
                path_extname projEnv ''sub/sub1.css''"
      by code_simp
    have out: "toLocalPath projEnv (toPosixPath projEnv
                 (replaceExt projEnv (mapToRelative projEnv ''unknown'' ''/proj/lib/components/sub/sub1.css'')
                    (path_extname projEnv ''sub/sub1.css''))) = ''./lib/components/sub/sub1.css''"
      by code_simp
    from extension_policy[OF nodot roots pre probe, where fromFile = "''unknown''"] same
    show ?thesis unfolding out by blast
  qed
  have js: "mapModule projEnv ''sub/sub1'' ''unknown'' projRoots = Some ''./lib/components/sub/sub1''"
  proof -
    have nodot: "\<not> startsWithDot ''sub/sub1''" by code_simp
    have pre: "\<forall>p\<in>set []. isl (probeRoot projEnv projRoots ''sub/sub1'' p)" by simp
    have probe: "probeRoot projEnv projRoots ''sub/sub1'' ''./lib/components'' =
                   Inr ''/proj/lib/components/sub/sub1.js''"
      by code_simp
    have differ: "path_extname projEnv ''/proj/lib/components/sub/sub1.js'' \<noteq>
                  path_extname projEnv ''sub/sub1''"
      by code_simp
    have out: "toLocalPath projEnv (toPosixPath projEnv
                 (replaceExt projEnv (mapToRelative projEnv ''unknown'' ''/proj/lib/components/sub/sub1.js'')
                    [])) = ''./lib/components/sub/sub1''"
      by code_simp
    from extension_policy[OF nodot roots pre probe, where fromFile = "''unknown''"] differ
    show ?thesis unfolding out by blast
  qed
  have dotted: "mapModule projEnv ''sub/custom.modernizr3'' ''unknown'' projRoots =
                  Some ''./lib/components/sub/custom.modernizr3''"
  proof -
    have nodot: "\<not> startsWithDot ''sub/custom.modernizr3''" by code_simp
    have pre: "\<forall>p\<in>set []. isl (probeRoot projEnv projRoots ''sub/custom.modernizr3'' p)" by simp
    have probe: "probeRoot projEnv projRoots ''sub/custom.modernizr3'' ''./lib/components'' =
                   Inr ''/proj/lib/components/sub/custom.modernizr3.js''"
      by code_simp
    have differ: "path_extname projEnv ''/proj/lib/components/sub/custom.modernizr3.js'' \<noteq>
                  path_extname projEnv ''sub/custom.modernizr3''"
      by code_simp
    have out: "toLocalPath projEnv (toPosixPath projEnv
                 (replaceExt projEnv
                    (mapToRelative projEnv ''unknown'' ''/proj/lib/components/sub/custom.modernizr3.js'')
                    [])) = ''./lib/components/sub/custom.modernizr3''"
      by code_simp
    from extension_policy[OF nodot roots pre probe, where fromFile = "''unknown''"] differ
    show ?thesis unfolding out by blast
  qed
  from css js dotted show ?thesis by blast
qed

text \<open>
  C4 (relative-specifier passthrough): for a specifier whose first character is a dot,
  \<^verbatim>\<open>mapModule\<close> returns \<^verbatim>\<open>null\<close>, whatever the importing file, the environment
  (filesystem and helpers) and the options (roots, aliases, extensions) are, and it makes
  no call of the probe.
\<close>

theorem relative_specifier_passthrough:
  "mapModule E (CHR ''.'' # rest) fromFile pluginOpts = None \<and>
   mapModuleProbes E (CHR ''.'' # rest) pluginOpts = []"
  by (simp add: mapModule_def mapModuleProbes_def startsWithDot_def)

text \<open>
  The un-mapped relative path of the repository's tests, with roots and aliases
  configured.
\<close>

theorem relative_specifier_passthrough_witness:
  "mapModule projEnv ''./l/otherLib'' ''unknown'' projBoth = None \<and>
   mapModuleProbes projEnv ''./l/otherLib'' projBoth = []"
  using relative_specifier_passthrough[of projEnv "''/l/otherLib''" "''unknown''" projBoth]
  by simp

text \<open>
  C5 (a root match suppresses the alias rules): let the specifier not start with a dot
  and let the probe resolve it under some configured root.  Then there is a configured
  root with resolved file \<open>f\<close> such that, whatever the alias option is set to,
  \<^verbatim>\<open>mapModule\<close> returns the root-phase rewrite computed from \<open>f\<close>.
\<close>

theorem root_match_suppresses_alias:
  assumes "\<not> startsWithDot source"
    and "r \<in> set (rootDirs pluginOpts)"
    and "probeRoot E pluginOpts source r = Inr resolved"
  shows "\<exists>r' f. r' \<in> set (rootDirs pluginOpts) \<and> probeRoot E pluginOpts source r' = Inr f \<and>
           (\<forall>a. mapModule E source fromFile (pluginOpts\<lparr>alias_opt := a\<rparr>) =
                  Some (rootRewrite E source fromFile f))"
proof -
  from searchRoots_some_hit[OF assms(2,3)] obtain r' f where
    h: "r' \<in> set (rootDirs pluginOpts)" "probeRoot E pluginOpts source r' = Inr f"
       "searchRoots E source fromFile pluginOpts (rootDirs pluginOpts) = Some (rootRewrite E source fromFile f)"
    by blast
  have "\<forall>a. mapModule E source fromFile (pluginOpts\<lparr>alias_opt := a\<rparr>) = Some (rootRewrite E source fromFile f)"
    using assms(1) h(3) by (simp add: mapModule_def)
  with h(1,2) show ?thesis by blast
qed

text \<open>
  The module \<^verbatim>\<open>c1\<close> with an alias for \<^verbatim>\<open>c1\<close>: the alias phase alone would
  rewrite it to \<^verbatim>\<open>lodash\<close>, and the result is the file under the root, with and
  without the alias.
\<close>

theorem root_match_suppresses_alias_witness:
  "aliasPhase projEnv ''c1'' ''unknown'' (projRoots\<lparr>alias_opt := Some [''c1'' \<mapsto> ''lodash'']\<rparr>) = Some ''lodash'' \<and>
   mapModule projEnv ''c1'' ''unknown'' (projRoots\<lparr>alias_opt := Some [''c1'' \<mapsto> ''lodash'']\<rparr>) =
     Some ''./lib/components/c1'' \<and>
   mapModule projEnv ''c1'' ''unknown'' (projRoots\<lparr>alias_opt := None\<rparr>) = Some ''./lib/components/c1''"
proof -
  have nodot: "\<not> startsWithDot ''c1''" by code_simp
  have mem: "''./lib/foo'' \<in> set (rootDirs projRoots)" by (simp add: rootDirs_def projRoots_def)
  have probe: "probeRoot projEnv projRoots ''c1'' ''./lib/foo'' = Inr ''/proj/lib/foo/c1.js''"
    by code_simp
  have aliased: "aliasPhase projEnv ''c1'' ''unknown'' (projRoots\<lparr>alias_opt := Some [''c1'' \<mapsto> ''lodash'']\<rparr>) = Some ''lodash''"
    by code_simp
  have plain: "mapModule projEnv ''c1'' ''unknown'' (projRoots\<lparr>alias_opt := None\<rparr>) = Some ''./lib/components/c1''"
    by code_simp
  from root_match_suppresses_alias[OF nodot mem probe, where fromFile = "''unknown''"]
  obtain f where all: "\<And>a. mapModule projEnv ''c1'' ''unknown'' (projRoots\<lparr>alias_opt := a\<rparr>) =
      Some (rootRewrite projEnv ''c1'' ''unknown'' f)"
    by blast
  from all[of None] plain have "Some (rootRewrite projEnv ''c1'' ''unknown'' f) = Some ''./lib/components/c1''"
    by simp
  with all[of "Some [''c1'' \<mapsto> ''lodash'']"]
  have "mapModule projEnv ''c1'' ''unknown'' (projRoots\<lparr>alias_opt := Some [''c1'' \<mapsto> ''lodash'']\<rparr>) =
     Some ''./lib/components/c1''" by simp
  with aliased plain show ?thesis by blast
qed

text \<open>
  C6 (legacy marker stripping and bare-package substitution), as the code has it.  Let
  the lookup stop at a key as in C2, with a target that is either \<^verbatim>\<open>npm:\<close> followed
  by \<open>pkg\<close>, or \<open>pkg\<close> itself without that marker.  If the target is not empty, and
  \<open>pkg\<close> does not start with a dot and holds none of the replacement patterns of
  \<^verbatim>\<open>String.prototype.replace\<close>, then the result is \<open>pkg\<close> followed by the unmatched
  suffix of the specifier, with no relative-path computation.
\<close>

theorem bare_package_alias:
  assumes "\<not> startsWithDot source"
    and "\<forall>r\<in>set (rootDirs pluginOpts). isl (probeRoot E pluginOpts source r)"
    and "1 \<le> n" and "n \<le> length (js_split source)"
    and "createAliasFileMap pluginOpts (js_join (take n (js_split source))) = Some target"
    and "\<forall>k. n < k \<and> k \<le> length (js_split source) \<longrightarrow>
             createAliasFileMap pluginOpts (js_join (take k (js_split source))) = None"
    and "target = ''npm:'' @ pkg \<or> (\<not> prefix ''npm:'' target \<and> target = pkg)"
    and "target \<noteq> []"
    and "\<not> startsWithDot pkg"
    and "\<not> hasDollarPattern pkg"
  shows "\<exists>suffix. source = js_join (take n (js_split source)) @ suffix \<and>
           mapModule E source fromFile pluginOpts = Some (pkg @ suffix)"
proof -
  have strip: "stripNpm target = pkg"
    using assms(7) by (auto simp: stripNpm_def)
  have "mapModule E source fromFile pluginOpts =
          Some (pkg @ drop (length (js_join (take n (js_split source)))) source)"
    using mapModule_no_root[OF assms(1,2)] aliasPhase_hit[OF assms(3-6)] assms(8,9)
    by (simp add: Let_def strip getSubstitution_plain[OF assms(10)])
  then show ?thesis
    using key_is_prefix[of n source, symmetric] by blast
qed

text \<open>The two aliases to packages of the repository's tests.\<close>

theorem bare_package_alias_witness:
  "mapModule projEnv ''abstract/thing'' ''unknown'' projBoth = Some ''concrete/thing'' \<and>
   mapModule projEnv ''underscore/map'' ''unknown'' projBoth = Some ''lodash/map''"
proof -
  have dirs: "rootDirs projBoth = [''./lib/components'', ''./lib/foo'']" by code_simp
  have lo: "(1::nat) \<le> 1" by simp
  have legacy: "mapModule projEnv ''abstract/thing'' ''unknown'' projBoth = Some ''concrete/thing''"
  proof -
    have nodot: "\<not> startsWithDot ''abstract/thing''" by code_simp
    have r1: "isl (probeRoot projEnv projBoth ''abstract/thing'' ''./lib/components'')" by code_simp
    have r2: "isl (probeRoot projEnv projBoth ''abstract/thing'' ''./lib/foo'')" by code_simp
    have roots: "\<forall>r\<in>set (rootDirs projBoth). isl (probeRoot projEnv projBoth ''abstract/thing'' r)"
      unfolding dirs using r1 r2 by simp
    have segs: "js_split ''abstract/thing'' = [''abstract'', ''thing'']" by code_simp
    have hi: "1 \<le> length (js_split ''abstract/thing'')" unfolding segs by simp
    have key: "js_join (take 1 (js_split ''abstract/thing'')) = ''abstract''" by code_simp
    have hit: "createAliasFileMap projBoth (js_join (take 1 (js_split ''abstract/thing''))) = Some ''npm:concrete''"
      by code_simp
    have miss2: "createAliasFileMap projBoth (js_join (take 2 (js_split ''abstract/thing''))) = None"
      by code_simp
    have longer: "\<forall>k. 1 < k \<and> k \<le> length (js_split ''abstract/thing'') \<longrightarrow>
        createAliasFileMap projBoth (js_join (take k (js_split ''abstract/thing''))) = None"
    proof (intro allI impI)
      fix k assume "1 < k \<and> k \<le> length (js_split ''abstract/thing'')"
      then have "k = 2" unfolding segs by simp
      then show "createAliasFileMap projBoth (js_join (take k (js_split ''abstract/thing''))) = None"
        using miss2 by simp
    qed
    have marker: "''npm:concrete'' = ''npm:'' @ ''concrete'' \<or>
                  (\<not> prefix ''npm:'' ''npm:concrete'' \<and> ''npm:concrete'' = ''concrete'')"
      by simp
    have nonempty: "''npm:concrete'' \<noteq> []" by simp
    have bare: "\<not> startsWithDot ''concrete''" by code_simp
    have plain: "\<not> hasDollarPattern ''concrete''" by code_simp
    from bare_package_alias[OF nodot roots lo hi hit longer marker nonempty bare plain,
        where fromFile = "''unknown''"]
    show ?thesis unfolding key by simp

  qed
  have rename: "mapModule projEnv ''underscore/map'' ''unknown'' projBoth = Some ''lodash/map''"
  proof -
    have nodot: "\<not> startsWithDot ''underscore/map''" by code_simp
    have r1: "isl (probeRoot projEnv projBoth ''underscore/map'' ''./lib/components'')" by code_simp
    have r2: "isl (probeRoot projEnv projBoth ''underscore/map'' ''./lib/foo'')" by code_simp
    have roots: "\<forall>r\<in>set (rootDirs projBoth). isl (probeRoot projEnv projBoth ''underscore/map'' r)"
      unfolding dirs using r1 r2 by simp
    have segs: "js_split ''underscore/map'' = [''underscore'', ''map'']" by code_simp
    have hi: "1 \<le> length (js_split ''underscore/map'')" unfolding segs by simp
    have key: "js_join (take 1 (js_split ''underscore/map'')) = ''underscore''" by code_simp
    have hit: "createAliasFileMap projBoth (js_join (take 1 (js_split ''underscore/map''))) = Some ''lodash''"
      by code_simp
    have miss2: "createAliasFileMap projBoth (js_join (take 2 (js_split ''underscore/map''))) = None"
      by code_simp
    have longer: "\<forall>k. 1 < k \<and> k \<le> length (js_split ''underscore/map'') \<longrightarrow>
        createAliasFileMap projBoth (js_join (take k (js_split ''underscore/map''))) = None"
    proof (intro allI impI)
      fix k assume "1 < k \<and> k \<le> length (js_split ''underscore/map'')"
      then have "k = 2" unfolding segs by simp
      then show "createAliasFileMap projBoth (js_join (take k (js_split ''underscore/map''))) = None"
        using miss2 by simp
    qed
    have marker: "''lodash'' = ''npm:'' @ ''lodash'' \<or>
                  (\<not> prefix ''npm:'' ''lodash'' \<and> ''lodash'' = ''lodash'')"
      by simp
    have nonempty: "''lodash'' \<noteq> []" by simp
    have bare: "\<not> startsWithDot ''lodash''" by code_simp
    have plain: "\<not> hasDollarPattern ''lodash''" by code_simp
    from bare_package_alias[OF nodot roots lo hi hit longer marker nonempty bare plain,
        where fromFile = "''unknown''"]
    show ?thesis unfolding key by simp

  qed
  from legacy rename show ?thesis by blast
qed

text \<open>
  The claim as stated fails on two inputs.  For a key whose target is the empty string,
  which does not start with a dot, the result is \<^verbatim>\<open>null\<close> and not the suffix
  \<^verbatim>\<open>/map\<close>.  A target \<^verbatim>\<open>lo$$dash\<close> is not attached verbatim: the pattern
  expands to a single dollar sign.
\<close>

theorem bare_package_alias_counterexample:
  "createAliasFileMap projEmptyTarget ''underscore'' = Some [] \<and>
   mapModule projEnv ''underscore/map'' ''unknown'' projEmptyTarget = None \<and>
   mapModule projEnv ''underscore/map'' ''unknown'' projEmptyTarget \<noteq> Some ''/map'' \<and>
   createAliasFileMap projDollar ''underscore'' = Some ''lo$$dash'' \<and>
   mapModule projEnv ''underscore/map'' ''unknown'' projDollar = Some ''lo$dash/map'' \<and>
   mapModule projEnv ''underscore/map'' ''unknown'' projDollar \<noteq> Some ''lo$$dash/map''"
  by code_simp

text \<open>
  C7 (unmatched specifier passthrough, probe failure is not fatal): let the specifier
  not start with a dot, let the probe throw, with whatever exception, under every
  configured root, and let no prefix of its segments be a key of the alias table.  Then
  \<^verbatim>\<open>mapModule\<close> returns \<^verbatim>\<open>null\<close>, a value and not an exception, and the probe
  was called for every root in order: each failure was absorbed and the search went on.
\<close>

theorem unmatched_specifier_passthrough:
  assumes "\<not> startsWithDot source"
    and "\<forall>r\<in>set (rootDirs pluginOpts). isl (probeRoot E pluginOpts source r)"
    and "\<forall>k. 1 \<le> k \<and> k \<le> length (js_split source) \<longrightarrow>
             createAliasFileMap pluginOpts (js_join (take k (js_split source))) = None"
  shows "mapModule E source fromFile pluginOpts = None \<and>
         mapModuleProbes E source pluginOpts =
           map (\<lambda>d. (''./'' @ source, path_resolve E d, probeExtensions pluginOpts)) (rootDirs pluginOpts)"
proof -
  have "mapModule E source fromFile pluginOpts = None"
    using mapModule_no_root[OF assms(1,2)] aliasPhase_miss[OF assms(3)] by simp
  moreover have "probeCalls E source pluginOpts (rootDirs pluginOpts @ []) =
      map (\<lambda>d. (''./'' @ source, path_resolve E d, probeExtensions pluginOpts)) (rootDirs pluginOpts) @
      probeCalls E source pluginOpts []"
    using assms(2) by (rule probeCalls_skip)
  ultimately show ?thesis using assms(1) by (simp add: mapModuleProbes_def)
qed

text \<open>
  The file outside of the roots of the repository's tests: both probes fail and no
  alias matches.
\<close>

theorem unmatched_specifier_passthrough_witness:
  "mapModule projEnv ''example-file'' ''unknown'' projBoth = None \<and>
   mapModuleProbes projEnv ''example-file'' projBoth =
     [(''./example-file'', ''/proj/lib/components'', [''.js'', ''.jsx'', ''.es'', ''.es6'']),
      (''./example-file'', ''/proj/lib/foo'', [''.js'', ''.jsx'', ''.es'', ''.es6''])]"
proof -
  have nodot: "\<not> startsWithDot ''example-file''" by code_simp
  have r1: "isl (probeRoot projEnv projBoth ''example-file'' ''./lib/components'')" by code_simp
  have r2: "isl (probeRoot projEnv projBoth ''example-file'' ''./lib/foo'')" by code_simp
  have dirs: "rootDirs projBoth = [''./lib/components'', ''./lib/foo'']" by code_simp
  have roots: "\<forall>r\<in>set (rootDirs projBoth). isl (probeRoot projEnv projBoth ''example-file'' r)"
    unfolding dirs using r1 r2 by simp
  have segs: "js_split ''example-file'' = [''example-file'']" by code_simp
  have miss1: "createAliasFileMap projBoth (js_join (take 1 (js_split ''example-file''))) = None"
    by code_simp
  have miss: "\<forall>k. 1 \<le> k \<and> k \<le> length (js_split ''example-file'') \<longrightarrow>
                createAliasFileMap projBoth (js_join (take k (js_split ''example-file''))) = None"
  proof (intro allI impI)
    fix k assume "1 \<le> k \<and> k \<le> length (js_split ''example-file'')"
    then have "k = 1" unfolding segs by simp
    then show "createAliasFileMap projBoth (js_join (take k (js_split ''example-file''))) = None"
      using miss1 by simp
  qed
  have args: "map (\<lambda>d. (''./'' @ ''example-file'', path_resolve projEnv d, probeExtensions projBoth))
                (rootDirs projBoth) =
     [(''./example-file'', ''/proj/lib/components'', [''.js'', ''.jsx'', ''.es'', ''.es6'']),
      (''./example-file'', ''/proj/lib/foo'', [''.js'', ''.jsx'', ''.es'', ''.es6''])]"
    by code_simp
  from unmatched_specifier_passthrough[OF nodot roots miss, where fromFile = "''unknown''"]
  show ?thesis unfolding args by blast
qed

text \<open>
  What the code does with a stub map.  Let a proxyquire call have a string literal as
  first argument, which \<^verbatim>\<open>mapModule\<close> rewrites to the non-empty \<open>modulePath\<close>
  from the file of the pass, and an object expression as second argument.  Then the call
  is replaced by one whose first argument is \<open>modulePath\<close> and whose second argument is
  the stub map with every string key resolved by \<^verbatim>\<open>mapModule\<close> again, with the
  string \<open>modulePath\<close> passed as importing file.  A key that is not a string literal,
  and a key for which the result is \<^verbatim>\<open>null\<close> (or empty), is left as it is; the
  value of every property is the one it had.  Arguments after the stub map are not
  carried over to the new call.
\<close>

theorem stub_table_rewriting:
  assumes "isProxyquireCall (callee nodePath)"
    and "arguments nodePath = StringLiteral source # ObjectExpression properties # rest"
    and "mapModule E source (file_opts_filename state) (opts state) = Some modulePath"
    and "modulePath \<noteq> []"
  shows "arguments (transformProxyquireCall E isProxyquireCall nodePath state) =
           [StringLiteral modulePath,
            ObjectExpression
              (map (\<lambda>(k, v).
                      ((case k of
                          StringLiteral stub \<Rightarrow>
                            (case mapModule E stub modulePath (opts state) of
                               None \<Rightarrow> k
                             | Some rewritten \<Rightarrow> if rewritten = [] then k else StringLiteral rewritten)
                        | _ \<Rightarrow> k), v))
                   properties)]"
proof -
  have first: "transformModulePath E (argumentAt nodePath 0) state None = Some (StringLiteral modulePath)"
    using assms(2-4) by (simp add: transformModulePath_def argumentAt_def)
  have second: "argumentAt nodePath (Suc 0) = Some (ObjectExpression properties)"
    using assms(2) by (simp add: argumentAt_def)
  have key: "(case transformModulePath E (Some (fst p)) state (Some modulePath) of
                Some propPath \<Rightarrow> (propPath, snd p) | None \<Rightarrow> p) =
             (\<lambda>(k, v).
                      ((case k of
                          StringLiteral stub \<Rightarrow>
                            (case mapModule E stub modulePath (opts state) of
                               None \<Rightarrow> k
                             | Some rewritten \<Rightarrow> if rewritten = [] then k else StringLiteral rewritten)
                        | _ \<Rightarrow> k), v)) p" for p :: "'a node \<times> 'a node"
    using assms(4)
    by (cases p) (auto simp: transformModulePath_def split: node.splits option.splits)
  show ?thesis
    using assms(1)
    by (simp add: transformProxyquireCall_def first second transformCallExpression_def
        transformObjectExpression_def key Let_def)
qed

text \<open>
  The call of the repository's tests, \<^verbatim>\<open>proxyquire("c1", { "c2": stub })\<close>, with
  two more properties: an unresolved key and a key that is not a string.
\<close>

theorem stub_table_rewriting_witness:
  "arguments (transformProxyquireCall projEnv (\<lambda>c. c = ''proxyquire'') stubCall projPass) =
     [StringLiteral ''./lib/components/c1'',
      ObjectExpression [(StringLiteral ''./c2'', OtherNode ''stub''),
                        (StringLiteral ''other-lib'', OtherNode ''fake''),
                        (OtherNode ''key'', OtherNode ''stub'')]]"
proof -
  have isPq: "(\<lambda>c. c = ''proxyquire'') (callee stubCall)" by (simp add: stubCall_def)
  have args: "arguments stubCall =
     StringLiteral ''c1'' #
     ObjectExpression [(StringLiteral ''c2'', OtherNode ''stub''),
                       (StringLiteral ''other-lib'', OtherNode ''fake''),
                       (OtherNode ''key'', OtherNode ''stub'')] # []"
    by (simp add: stubCall_def)
  have parent: "mapModule projEnv ''c1'' (file_opts_filename projPass) (opts projPass) =
                  Some ''./lib/components/c1''"
    by code_simp
  have nonempty: "''./lib/components/c1'' \<noteq> []" by simp
  have k1: "mapModule projEnv ''c2'' ''./lib/components/c1'' (opts projPass) = Some ''./c2''"
    by code_simp
  have k2: "mapModule projEnv ''other-lib'' ''./lib/components/c1'' (opts projPass) = None"
    by code_simp
  from stub_table_rewriting[of "\<lambda>c. c = ''proxyquire''" stubCall, OF isPq args parent nonempty]
  show ?thesis by (simp add: k1 k2)
qed

text \<open>
  C8 (stub-table rewriting): every string key of the stub map is to be resolved again
  with the resolved file of the rewritten parent as the base of the relative path, the
  values kept and the unresolved keys untouched.  The values and the unresolved keys are
  as claimed (see above), but the base is not: the code passes the rewritten parent
  specifier, which is relative to the directory of the calling file, where a file name
  relative to the working directory is expected.  The two agree for a calling file in
  the working directory only.  For the call in \<^verbatim>\<open>./lib/foo/bar/x.js\<close> the parent
  \<^verbatim>\<open>bar\<close> is rewritten to \<^verbatim>\<open>../bar\<close> and resolves to
  \<^verbatim>\<open>/proj/lib/foo/bar.js\<close>; the stub key \<^verbatim>\<open>c1\<close> becomes
  \<^verbatim>\<open>./proj/lib/components/c1\<close>, a path that leads nowhere, while relative to the
  resolved parent it is \<^verbatim>\<open>../components/c1\<close>.
\<close>

theorem stub_base_outside_working_directory:
  "arguments (transformProxyquireCall projEnv (\<lambda>c. c = ''proxyquire'') nestedStubCall nestedPass) =
     [StringLiteral ''../bar'',
      ObjectExpression [(StringLiteral ''./proj/lib/components/c1'', OtherNode ''stub'')]] \<and>
   probeRoot projEnv projRoots ''bar'' ''./lib/foo'' = Inr ''/proj/lib/foo/bar.js'' \<and>
   mapModule projEnv ''c1'' ''/proj/lib/foo/bar.js'' projRoots = Some ''../components/c1''"
  by code_simp

lemma rootRewrite_resolveSync_update:
  "rootRewrite (E\<lparr>resolveSync := p\<rparr>) source fromFile resolved = rootRewrite E source fromFile resolved"
  by (simp add: rootRewrite_def replaceExt_def)

lemma searchRoots_resolveSync_update:
  assumes "\<forall>req base. p req base (probeExtensions pluginOpts) =
             resolveSync E req base (probeExtensions pluginOpts)"
  shows "searchRoots (E\<lparr>resolveSync := p\<rparr>) source fromFile pluginOpts rs =
         searchRoots E source fromFile pluginOpts rs"
  using assms
  by (induction rs) (simp_all add: probeRoot_def rootRewrite_resolveSync_update split: sum.splits)

lemma aliasPhase_resolveSync_update:
  "aliasPhase (E\<lparr>resolveSync := p\<rparr>) source fromFile pluginOpts = aliasPhase E source fromFile pluginOpts"
  by (simp add: aliasPhase_def Let_def split: prod.splits option.splits)

lemma mapModule_resolveSync_update:
  assumes "\<forall>req base. p req base (probeExtensions pluginOpts) =
             resolveSync E req base (probeExtensions pluginOpts)"
  shows "mapModule (E\<lparr>resolveSync := p\<rparr>) source fromFile pluginOpts =
         mapModule E source fromFile pluginOpts"
  using searchRoots_resolveSync_update[where p = p and E = E and pluginOpts = pluginOpts] assms
  by (simp add: mapModule_def aliasPhase_resolveSync_update split: option.splits)

text \<open>
  C9 (default extension list): when the extensions option is omitted, the probe of a
  root directory is the call of \<^verbatim>\<open>resolve.sync\<close> with the extension list
  \<^verbatim>\<open>['.js', '.jsx', '.es', '.es6']\<close>, in this order, and \<^verbatim>\<open>mapModule\<close> reads
  the probe at this list only: a probe that answers the same for this list, whatever
  it answers for other lists, gives the same result.  When the option is given, both
  hold for the given list, in its order.
\<close>

theorem default_extension_list:
  "(extensions pluginOpts = None \<longrightarrow>
      probeRoot E pluginOpts source rootDir =
        resolveSync E (''./'' @ source) (path_resolve E rootDir) [''.js'', ''.jsx'', ''.es'', ''.es6''] \<and>
      (\<forall>p. (\<forall>req base. p req base [''.js'', ''.jsx'', ''.es'', ''.es6''] =
                          resolveSync E req base [''.js'', ''.jsx'', ''.es'', ''.es6'']) \<longrightarrow>
           mapModule (E\<lparr>resolveSync := p\<rparr>) source fromFile pluginOpts =
           mapModule E source fromFile pluginOpts)) \<and>
   (extensions pluginOpts = Some es \<longrightarrow>
      probeRoot E pluginOpts source rootDir =
        resolveSync E (''./'' @ source) (path_resolve E rootDir) es \<and>
      (\<forall>p. (\<forall>req base. p req base es = resolveSync E req base es) \<longrightarrow>
           mapModule (E\<lparr>resolveSync := p\<rparr>) source fromFile pluginOpts =
           mapModule E source fromFile pluginOpts))"
proof (intro conjI impI allI)
  assume "extensions pluginOpts = None"
  then show "probeRoot E pluginOpts source rootDir =
        resolveSync E (''./'' @ source) (path_resolve E rootDir) [''.js'', ''.jsx'', ''.es'', ''.es6'']"
    by (simp add: probeRoot_def probeExtensions_def defaultBabelExtensions_def)
next
  fix p
  assume none: "extensions pluginOpts = None"
    and "\<forall>req base. p req base [''.js'', ''.jsx'', ''.es'', ''.es6''] =
                     resolveSync E req base [''.js'', ''.jsx'', ''.es'', ''.es6'']"
  then have "\<forall>req base. p req base (probeExtensions pluginOpts) =
                resolveSync E req base (probeExtensions pluginOpts)"
    by (simp add: probeExtensions_def defaultBabelExtensions_def)
  then show "mapModule (E\<lparr>resolveSync := p\<rparr>) source fromFile pluginOpts =
             mapModule E source fromFile pluginOpts"
    by (rule mapModule_resolveSync_update)
next
  assume "extensions pluginOpts = Some es"
  then show "probeRoot E pluginOpts source rootDir =
        resolveSync E (''./'' @ source) (path_resolve E rootDir) es"
    by (simp add: probeRoot_def probeExtensions_def)
next
  fix p
  assume "extensions pluginOpts = Some es"
    and "\<forall>req base. p req base es = resolveSync E req base es"
  then have "\<forall>req base. p req base (probeExtensions pluginOpts) =
                resolveSync E req base (probeExtensions pluginOpts)"
    by (simp add: probeExtensions_def)
  then show "mapModule (E\<lparr>resolveSync := p\<rparr>) source fromFile pluginOpts =
             mapModule E source fromFile pluginOpts"
    by (rule mapModule_resolveSync_update)
qed

text \<open>
  Without the option, \<^verbatim>\<open>sub/sub1\<close> is probed with the default list and found as
  \<^verbatim>\<open>sub1.js\<close>, and a probe that throws for every other list still resolves
  \<^verbatim>\<open>c1\<close>.  With the list \<^verbatim>\<open>['.css', '.js']\<close> the same specifier is probed
  with this list and found as \<^verbatim>\<open>sub1.css\<close>, which comes first, and a probe that
  throws for every other list, the default one included, still resolves it.
\<close>

theorem default_extension_list_witness:
  "probeRoot projEnv projRoots ''sub/sub1'' ''./lib/components'' =
     Inr ''/proj/lib/components/sub/sub1.js'' \<and>
   mapModule (projEnv\<lparr>resolveSync := oneListProbe [''.js'', ''.jsx'', ''.es'', ''.es6'']\<rparr>) ''c1'' ''unknown'' projRoots =
     Some ''./lib/components/c1'' \<and>
   probeRoot projEnv (projRoots\<lparr>extensions := Some [''.css'', ''.js'']\<rparr>) ''sub/sub1'' ''./lib/components'' =
     Inr ''/proj/lib/components/sub/sub1.css'' \<and>
   mapModule (projEnv\<lparr>resolveSync := oneListProbe [''.css'', ''.js'']\<rparr>) ''sub/sub1'' ''unknown''
       (projRoots\<lparr>extensions := Some [''.css'', ''.js'']\<rparr>) =
     Some ''./lib/components/sub/sub1''"
proof -
  have omitted: "extensions projRoots = None" by (simp add: projRoots_def)
  have given: "extensions (projRoots\<lparr>extensions := Some [''.css'', ''.js'']\<rparr>) = Some [''.css'', ''.js'']"
    by simp
  have agree1: "\<forall>req base. oneListProbe [''.js'', ''.jsx'', ''.es'', ''.es6''] req base [''.js'', ''.jsx'', ''.es'', ''.es6''] =
                  resolveSync projEnv req base [''.js'', ''.jsx'', ''.es'', ''.es6'']"
    by (simp add: oneListProbe_def projEnv_def posixEnv_def)
  have agree2: "\<forall>req base. oneListProbe [''.css'', ''.js''] req base [''.css'', ''.js''] =
                  resolveSync projEnv req base [''.css'', ''.js'']"
    by (simp add: oneListProbe_def projEnv_def posixEnv_def)
  have call1: "resolveSync projEnv (''./'' @ ''sub/sub1'') (path_resolve projEnv ''./lib/components'')
                 [''.js'', ''.jsx'', ''.es'', ''.es6''] = Inr ''/proj/lib/components/sub/sub1.js''"
    by code_simp
  have call2: "resolveSync projEnv (''./'' @ ''sub/sub1'') (path_resolve projEnv ''./lib/components'')
                 [''.css'', ''.js''] = Inr ''/proj/lib/components/sub/sub1.css''"
    by code_simp
  have res1: "mapModule projEnv ''c1'' ''unknown'' projRoots = Some ''./lib/components/c1''"
    by code_simp
  have res2: "mapModule projEnv ''sub/sub1'' ''unknown'' (projRoots\<lparr>extensions := Some [''.css'', ''.js'']\<rparr>) =
                Some ''./lib/components/sub/sub1''"
    by code_simp
  note d1 = default_extension_list[of projRoots projEnv "''sub/sub1''" "''./lib/components''" "''unknown''" "[]",
      THEN conjunct1, THEN mp, OF omitted]
  note d1' = default_extension_list[of projRoots projEnv "''c1''" "''./lib/components''" "''unknown''" "[]",
      THEN conjunct1, THEN mp, OF omitted]
  note d2 = default_extension_list[of "projRoots\<lparr>extensions := Some [''.css'', ''.js'']\<rparr>" projEnv
      "''sub/sub1''" "''./lib/components''" "''unknown''" "[''.css'', ''.js'']",
      THEN conjunct2, THEN mp, OF given]
  have a: "probeRoot projEnv projRoots ''sub/sub1'' ''./lib/components'' =
             Inr ''/proj/lib/components/sub/sub1.js''"
    using d1[THEN conjunct1] call1 by simp
  have b: "mapModule (projEnv\<lparr>resolveSync := oneListProbe [''.js'', ''.jsx'', ''.es'', ''.es6'']\<rparr>) ''c1'' ''unknown'' projRoots =
             Some ''./lib/components/c1''"
    using d1'[THEN conjunct2, THEN spec, of "oneListProbe [''.js'', ''.jsx'', ''.es'', ''.es6'']", THEN mp, OF agree1] res1 by simp
  have c: "probeRoot projEnv (projRoots\<lparr>extensions := Some [''.css'', ''.js'']\<rparr>) ''sub/sub1'' ''./lib/components'' =
             Inr ''/proj/lib/components/sub/sub1.css''"
    using d2[THEN conjunct1] call2 by simp
  have d: "mapModule (projEnv\<lparr>resolveSync := oneListProbe [''.css'', ''.js'']\<rparr>) ''sub/sub1'' ''unknown''
             (projRoots\<lparr>extensions := Some [''.css'', ''.js'']\<rparr>) =
           Some ''./lib/components/sub/sub1''"
    using d2[THEN conjunct2, THEN spec, of "oneListProbe [''.css'', ''.js'']", THEN mp, OF agree2] res2 by simp
  from a b c d show ?thesis by blast
qed

text \<open>
  C10 (an empty alias target behaves as no match): let the specifier not start with a
  dot and let no root resolve it.  If the key that the longest-prefix lookup stops at
  has the empty string as its target, \<^verbatim>\<open>mapModule\<close> returns \<^verbatim>\<open>null\<close>.
\<close>

theorem empty_alias_target_is_no_match:
  assumes "\<not> startsWithDot source"
    and "\<forall>r\<in>set (rootDirs pluginOpts). isl (probeRoot E pluginOpts source r)"
    and "1 \<le> n" and "n \<le> length (js_split source)"
    and "createAliasFileMap pluginOpts (js_join (take n (js_split source))) = Some []"
    and "\<forall>k. n < k \<and> k \<le> length (js_split source) \<longrightarrow>
             createAliasFileMap pluginOpts (js_join (take k (js_split source))) = None"
  shows "mapModule E source fromFile pluginOpts = None"
  using mapModule_no_root[OF assms(1,2)] aliasPhase_hit[OF assms(3-6)] by simp

text \<open>An alias whose target is the empty string, for a sub-path of its key.\<close>

theorem empty_alias_target_is_no_match_witness:
  "createAliasFileMap projEmptyTarget ''utils'' = Some [] \<and>
   mapModule projEnv ''utils/my-util-file'' ''unknown'' projEmptyTarget = None"
proof -
  have nodot: "\<not> startsWithDot ''utils/my-util-file''" by code_simp
  have dirs: "rootDirs projEmptyTarget = [''./lib/components'', ''./lib/foo'']" by code_simp
  have r1: "isl (probeRoot projEnv projEmptyTarget ''utils/my-util-file'' ''./lib/components'')"
    by code_simp
  have r2: "isl (probeRoot projEnv projEmptyTarget ''utils/my-util-file'' ''./lib/foo'')"
    by code_simp
  have roots: "\<forall>r\<in>set (rootDirs projEmptyTarget).
                 isl (probeRoot projEnv projEmptyTarget ''utils/my-util-file'' r)"
    unfolding dirs using r1 r2 by simp
  have segs: "js_split ''utils/my-util-file'' = [''utils'', ''my-util-file'']" by code_simp
  have lo: "(1::nat) \<le> 1" by simp
  have hi: "1 \<le> length (js_split ''utils/my-util-file'')" unfolding segs by simp
  have hit: "createAliasFileMap projEmptyTarget (js_join (take 1 (js_split ''utils/my-util-file''))) = Some []"
    by code_simp
  have miss2: "createAliasFileMap projEmptyTarget (js_join (take 2 (js_split ''utils/my-util-file''))) = None"
    by code_simp
  have longer: "\<forall>k. 1 < k \<and> k \<le> length (js_split ''utils/my-util-file'') \<longrightarrow>
      createAliasFileMap projEmptyTarget (js_join (take k (js_split ''utils/my-util-file''))) = None"
  proof (intro allI impI)
    fix k assume "1 < k \<and> k \<le> length (js_split ''utils/my-util-file'')"
    then have "k = 2" unfolding segs by simp
    then show "createAliasFileMap projEmptyTarget (js_join (take k (js_split ''utils/my-util-file''))) = None"
      using miss2 by simp
  qed
  have entry: "createAliasFileMap projEmptyTarget ''utils'' = Some []" by code_simp
  from empty_alias_target_is_no_match[OF nodot roots lo hi hit longer, where fromFile = "''unknown''"] entry
  show ?thesis by blast
qed

end
